theory Spec2Isabelle
  imports Main "HOL-Library.Word" "HOL-Library.Sublist"
begin

section \<open>Strings of the host language\<close>

text \<open>
  A JavaScript string is a sequence of UTF-16 code units. \<open>js\<close> turns an ASCII literal
  into such a sequence, so that \<open>js ''a.b''\<close> stands for the source literal \<open>'a.b'\<close>.
\<close>

type_synonym jschar = "16 word"
type_synonym jsstring = "jschar list"

definition js :: "string \<Rightarrow> jsstring" where
  "js s = map of_char s"

text \<open>
  Modelled from the spec: the constants \<open>BYTES.LF\<close> and \<open>BYTES.NULL\<close> of
  \<open>lib/bytes\<close>, which is not among the sources. \<open>LF\<close> is the single line feed of
  the heartbeat marker, \<open>NUL\<close> the byte that ends a frame. The other constants name the
  separators that the source writes as literals.
\<close>

definition LF :: jschar where "LF = 0x0A"
definition NUL :: jschar where "NUL = 0x00"
definition COLON :: jschar where "COLON = 0x3A"
definition COMMA :: jschar where "COMMA = 0x2C"
definition DOT :: jschar where "DOT = 0x2E"
definition SLASH :: jschar where "SLASH = 0x2F"

text \<open>
  \<open>String.prototype.split(sep)\<close>: the pieces between the leftmost, non-overlapping
  occurrences of \<open>sep\<close>; always at least one piece when \<open>sep\<close> is not empty. For the
  empty separator the string is cut into its code units.
\<close>

fun split_from :: "'a list \<Rightarrow> 'a list \<Rightarrow> 'a list \<Rightarrow> 'a list list" where
  "split_from sep acc [] = [rev acc]"
| "split_from sep acc (c # cs) =
     (if prefix sep (c # cs)
      then rev acc # split_from sep [] (drop (length sep - 1) cs)
      else split_from sep (c # acc) cs)"

definition split :: "'a list \<Rightarrow> 'a list \<Rightarrow> 'a list list" where
  "split sep s = (if sep = [] then map (\<lambda>c. [c]) s else split_from sep [] s)"

text \<open>\<open>Array.prototype.join(sep)\<close> on an array of strings.\<close>

fun join :: "'a list \<Rightarrow> 'a list list \<Rightarrow> 'a list" where
  "join sep [] = []"
| "join sep [x] = x"
| "join sep (x # y # ys) = x @ sep @ join sep (y # ys)"

text \<open>\<open>s.indexOf(c)\<close> for a one-unit needle: \<open>None\<close> stands for \<open>-1\<close>.\<close>

fun indexOf :: "'a list \<Rightarrow> 'a \<Rightarrow> nat option" where
  "indexOf [] c = None"
| "indexOf (x # xs) c = (if x = c then Some 0 else map_option Suc (indexOf xs c))"

section \<open>Topic matcher\<close>

text \<open>
  \<open>tokenizeDestination\<close>: \<open>dest.substr(dest.indexOf('/') + 1).split('.')\<close>. Without a
  slash \<open>indexOf\<close> is \<open>-1\<close> and the whole string is split.
\<close>

definition tokenizeDestination :: "jsstring \<Rightarrow> jsstring list" where
  "tokenizeDestination dest =
     split [DOT] (drop (case indexOf dest SLASH of None \<Rightarrow> 0 | Some i \<Rightarrow> i + 1) dest)"

text \<open>
  The loop of \<open>_checkSubMatchDest\<close> walks the destination tokens by index \<open>t\<close> and reads
  \<open>sub.tokens[t]\<close>; both lists are consumed in lockstep. An exhausted subscription list is
  \<open>sub.tokens[t] === undefined\<close>.
\<close>

fun match_tokens :: "jsstring list \<Rightarrow> jsstring list \<Rightarrow> bool" where
  "match_tokens subTokens [] = True"
| "match_tokens [] (token # tokens) = False"
| "match_tokens (s # subTokens) (token # tokens) =
     (if s \<noteq> token \<and> s \<noteq> js ''*'' \<and> s \<noteq> js ''**'' then False
      else if s = js ''**'' then True
      else match_tokens subTokens tokens)"

section \<open>Values of the host language\<close>

text \<open>
  Header values and frame bodies are untyped in the source (\<open>headers: any\<close>): strings read
  off the wire, numbers (\<open>content-length\<close>), booleans (\<open>bytes_message\<close>) and, after
  \<open>JSON.parse\<close>, arrays and objects. A number is an integer that JavaScript holds
  exactly, of absolute value at most \<open>2\<^sup>5\<^sup>3\<close>: heartbeat intervals in
  milliseconds, lengths, clock readings. Fractions, \<open>NaN\<close> inside a value, larger
  numbers and \<open>Buffer\<close> values are not part of this universe.
\<close>

datatype jsvalue =
    VUndefined
  | VNull
  | VBool bool
  | VNumber int
  | VString jsstring
  | VArray "jsvalue list"
  | VObject "(jsstring \<times> jsvalue) list"

text \<open>
  A number as a string: plain decimal digits, which is what JavaScript writes for the
  integers of this universe. For an integer beyond \<open>2\<^sup>5\<^sup>3\<close> JavaScript writes the
  digits of the nearest number it can hold, and from \<open>10\<^sup>2\<^sup>1\<close> an exponent;
  \<open>number_to_string\<close> does not describe those.
\<close>

fun digits :: "nat \<Rightarrow> jsstring" where
  "digits n = (if n < 10 then [0x30 + of_nat n] else digits (n div 10) @ [0x30 + of_nat (n mod 10)])"

declare digits.simps [simp del]

definition number_to_string :: "int \<Rightarrow> jsstring" where
  "number_to_string i = (if i < 0 then 0x2D # digits (nat (- i)) else digits (nat i))"

text \<open>\<open>ToString\<close>, as applied by \<open>+\<close> on a string and by \<open>Array.prototype.join\<close>.\<close>

fun to_string :: "jsvalue \<Rightarrow> jsstring" where
  "to_string VUndefined = js ''undefined''"
| "to_string VNull = js ''null''"
| "to_string (VBool b) = (if b then js ''true'' else js ''false'')"
| "to_string (VNumber i) = number_to_string i"
| "to_string (VString s) = s"
| "to_string (VArray vs) =
     join [COMMA] (map (\<lambda>v. if v = VUndefined \<or> v = VNull then [] else to_string v) vs)"
| "to_string (VObject kvs) = js ''[object Object]''"

fun truthy :: "jsvalue \<Rightarrow> bool" where
  "truthy VUndefined = False"
| "truthy VNull = False"
| "truthy (VBool b) = b"
| "truthy (VNumber i) = (i \<noteq> 0)"
| "truthy (VString s) = (s \<noteq> [])"
| "truthy (VArray vs) = True"
| "truthy (VObject kvs) = True"

text \<open>
  \<open>String.prototype.trim\<close> strips the code units of \<open>WhiteSpace\<close> and
  \<open>LineTerminator\<close> from both ends.
\<close>

definition is_space :: "jschar \<Rightarrow> bool" where
  "is_space c \<longleftrightarrow>
     c \<in> {0x09, 0x0A, 0x0B, 0x0C, 0x0D, 0x20, 0xA0, 0x1680, 0x2028, 0x2029, 0x202F, 0x205F,
          0x3000, 0xFEFF}
     \<or> (0x2000 \<le> c \<and> c \<le> 0x200A)"

definition trim :: "jsstring \<Rightarrow> jsstring" where
  "trim s = rev (dropWhile is_space (rev (dropWhile is_space s)))"

text \<open>
  \<open>new TextEncoder().encode(s).length\<close>: the number of bytes of the UTF-8 encoding. A
  surrogate pair is one code point of four bytes; a lone surrogate is replaced by U+FFFD,
  three bytes.
\<close>

definition is_high_surrogate :: "jschar \<Rightarrow> bool" where
  "is_high_surrogate c \<longleftrightarrow> 0xD800 \<le> c \<and> c \<le> 0xDBFF"

definition is_low_surrogate :: "jschar \<Rightarrow> bool" where
  "is_low_surrogate c \<longleftrightarrow> 0xDC00 \<le> c \<and> c \<le> 0xDFFF"

fun utf8_length :: "jsstring \<Rightarrow> nat" where
  "utf8_length [] = 0"
| "utf8_length [c] = (if c < 0x80 then 1 else if c < 0x800 then 2 else 3)"
| "utf8_length (c # d # cs) =
     (if c < 0x80 then 1 + utf8_length (d # cs)
      else if c < 0x800 then 2 + utf8_length (d # cs)
      else if is_high_surrogate c \<and> is_low_surrogate d then 4 + utf8_length cs
      else 3 + utf8_length (d # cs))"

section \<open>Frames\<close>

text \<open>
  A header object is the list of its own properties in insertion order, with unique keys.
  \<open>hget\<close> is the property read \<open>headers[k]\<close>, \<open>hset\<close> the assignment
  \<open>headers[k] = v\<close> of a primitive value, \<open>hhas\<close> the test \<open>k in headers\<close>.
  Assigning a primitive to \<open>__proto__\<close> goes to the inherited setter, which ignores it,
  so no own property appears.
\<close>

type_synonym headers = "(jsstring \<times> jsvalue) list"

definition hget :: "headers \<Rightarrow> jsstring \<Rightarrow> jsvalue" where
  "hget hs k = (case map_of hs k of None \<Rightarrow> VUndefined | Some v \<Rightarrow> v)"

definition hhas :: "headers \<Rightarrow> jsstring \<Rightarrow> bool" where
  "hhas hs k \<longleftrightarrow> map_of hs k \<noteq> None"

fun hput :: "headers \<Rightarrow> jsstring \<Rightarrow> jsvalue \<Rightarrow> headers" where
  "hput [] k v = [(k, v)]"
| "hput ((k', v') # hs) k v = (if k' = k then (k, v) # hs else (k', v') # hput hs k v)"

definition hset :: "headers \<Rightarrow> jsstring \<Rightarrow> jsvalue \<Rightarrow> headers" where
  "hset hs k v = (if k = js ''__proto__'' then hs else hput hs k v)"

text \<open>
  \<open>for (const header in this.headers)\<close> visits the keys that are canonical array indices
  first, in ascending numeric order, then the other keys in insertion order.
\<close>

definition is_digit :: "jschar \<Rightarrow> bool" where
  "is_digit c \<longleftrightarrow> 0x30 \<le> c \<and> c \<le> 0x39"

definition digits_value :: "jsstring \<Rightarrow> int" where
  "digits_value s = foldl (\<lambda>n c. 10 * n + uint (c - 0x30)) 0 s"

definition array_index :: "jsstring \<Rightarrow> int option" where
  "array_index k =
     (if k \<noteq> [] \<and> list_all is_digit k \<and> (k = js ''0'' \<or> hd k \<noteq> 0x30)
         \<and> digits_value k < 4294967295
      then Some (digits_value k) else None)"

definition for_in :: "headers \<Rightarrow> headers" where
  "for_in hs =
     sort_key (\<lambda>(k, v). the (array_index k)) (filter (\<lambda>(k, v). array_index k \<noteq> None) hs)
     @ filter (\<lambda>(k, v). array_index k = None) hs"

record Frame =
  command :: "jsstring option"
  headers :: headers
  body :: jsvalue

text \<open>
  \<open>Frame.toStringOrBuffer\<close>. An absent command is concatenated as \<open>undefined\<close>. The
  \<open>Buffer\<close> branch does not arise: no body of this universe is a \<open>Buffer\<close>.
\<close>

definition toStringOrBuffer :: "Frame \<Rightarrow> jsstring" where
  "toStringOrBuffer f =
     (let header_strs = map (\<lambda>(header, v). header @ [COLON] @ to_string v) (for_in (headers f));
          frame = [];
          frame = frame @ (case command f of None \<Rightarrow> js ''undefined'' | Some c \<Rightarrow> c) @ [LF];
          frame = frame @ join [LF] header_strs;
          frame = frame @ [LF, LF];
          frame = (if truthy (body f) then frame @ to_string (body f) else frame)
      in frame @ [NUL])"

text \<open>\<open>parseCommand\<close>: the text before the first line feed.\<close>

definition parseCommand :: "jsstring \<Rightarrow> jsstring" where
  "parseCommand data = hd (split [LF] data)"

text \<open>
  \<open>parseHeaders\<close>. A line without a colon splits into one piece; then \<open>header[1]\<close> is
  \<open>undefined\<close> and the second test of the loop body fails as well, so the line is skipped.
\<close>

definition parseHeaders_line :: "headers \<Rightarrow> jsstring \<Rightarrow> headers" where
  "parseHeaders_line hs line =
     (let header = split [COLON] line
      in if length header > 1
         then hset hs (trim (hd header)) (VString (trim (join [COLON] (tl header))))
         else hs)"

definition parseHeaders :: "jsstring \<Rightarrow> headers" where
  "parseHeaders raw_headers = foldl parseHeaders_line [] (split [LF] raw_headers)"

definition trimNull :: "jsstring \<Rightarrow> jsstring" where
  "trimNull a = (case indexOf a NUL of Some c \<Rightarrow> take c a | None \<Rightarrow> a)"

text \<open>
  \<open>parseFrame\<close> on a textual chunk; \<open>None\<close> is the \<open>undefined\<close> chunk, answered by
  \<open>null\<close>. \<open>the_rest.slice(1)\<close> is an array, and its \<open>toString\<close> joins the pieces
  with commas.
\<close>

definition parseFrame :: "jsstring option \<Rightarrow> Frame option" where
  "parseFrame chunk =
     (case chunk of
        None \<Rightarrow> None
      | Some chunk \<Rightarrow>
          let command = parseCommand chunk;
              data = drop (length command + 1) chunk;
              the_rest = split [LF, LF] data;
              headers = parseHeaders (hd the_rest);
              body = tl the_rest;
              headers = (if hhas headers (js ''content-length'')
                         then hset headers (js ''bytes_message'') (VBool True) else headers)
          in Some \<lparr>command = Some command, headers = headers,
                   body = VString (trimNull (join [COMMA] body))\<rparr>)"

section \<open>Connections, subscriptions and the broker state\<close>

text \<open>
  The fields of the \<open>WebSocket\<close> interface that the broker reads and writes. \<open>sent\<close>
  collects the arguments of \<open>socket.send\<close>, oldest first, and \<open>closeCalls\<close> counts the
  calls of \<open>socket.close\<close>: the transport itself is outside the broker. A connection is
  referred to by its index in the store \<open>sockets\<close> of the broker state.
\<close>

record WebSocket =
  sessionId :: jsstring
  readyState :: nat
  clientHeartbeat :: "(int option \<times> int option) option"
  heartbeatClock :: "nat option"
  heartbeatTime :: int
  sent :: "jsstring list"
  closeCalls :: nat

text \<open>
  The caller of a broker action is a connection or the broker's own \<open>selfSocket\<close>, an
  object with the single field \<open>sessionId: 'self_1234'\<close>.
\<close>

datatype client = Self | Conn nat

text \<open>
  The interface \<open>Subscribe\<close>. Its fields \<open>id\<close>, \<open>sessionId\<close> and \<open>socket\<close>
  carry a prime here; \<open>socket'\<close> is absent for an in-process subscriber.
\<close>

record Subscribe =
  id' :: jsstring
  sessionId' :: jsstring
  topic :: jsstring
  tokens :: "jsstring list"
  socket' :: "nat option"

text \<open>The configuration the broker reads; \<open>heartbeat\<close> is the array \<open>[sx, sy]\<close>.\<close>

record Config =
  serverName :: jsstring
  heartbeat :: "int \<times> int"
  heartbeatErrorMargin :: int

text \<open>A live \<open>setInterval\<close> timer: the connection and interval its callback closes over.\<close>

record timer =
  timerSocket :: nat
  timerInterval :: int
  timerServerSide :: bool

text \<open>
  The broker (\<open>conf\<close>, \<open>subscribes\<close>) together with what it acts on: the connections,
  the live timers by handle, the reading of \<open>Date.now()\<close> and the calls of
  \<open>eventEmitter.emit\<close> (event name and arguments, oldest first). A deleted array element
  of \<open>subscribes\<close> is a hole, \<open>None\<close>; \<open>for ... in\<close> skips it.
\<close>

record world =
  conf :: Config
  subscribes :: "Subscribe option list"
  sockets :: "nat \<Rightarrow> WebSocket"
  timers :: "(nat \<times> timer) list"
  nextHandle :: nat
  now :: int
  emitted :: "(jsstring \<times> jsvalue list) list"

definition sessionId_of :: "world \<Rightarrow> client \<Rightarrow> jsstring" where
  "sessionId_of w c = (case c of Self \<Rightarrow> js ''self_1234'' | Conn n \<Rightarrow> sessionId (sockets w n))"

definition update_socket :: "nat \<Rightarrow> (WebSocket \<Rightarrow> WebSocket) \<Rightarrow> world \<Rightarrow> world" where
  "update_socket n f w = w\<lparr>sockets := (sockets w)(n := f (sockets w n))\<rparr>"

definition socket_send :: "nat \<Rightarrow> jsstring \<Rightarrow> world \<Rightarrow> world" where
  "socket_send n data w = update_socket n (\<lambda>s. s\<lparr>sent := sent s @ [data]\<rparr>) w"

definition socket_close :: "nat \<Rightarrow> world \<Rightarrow> world" where
  "socket_close n w = update_socket n (\<lambda>s. s\<lparr>closeCalls := closeCalls s + 1\<rparr>) w"

definition emit :: "jsstring \<Rightarrow> jsvalue list \<Rightarrow> world \<Rightarrow> world" where
  "emit name args w = w\<lparr>emitted := emitted w @ [(name, args)]\<rparr>"

section \<open>Interceptor chain\<close>

text \<open>
  An action runs on the broker state and returns a value. An interceptor receives the
  connection, the arguments and the continuation \<open>callNext\<close>. In the source the
  handlers are read through one iterator, which every call of \<open>callNext\<close> advances;
  here the iterator is the list of the handlers not yet started, handed on to the
  continuation. The two agree for every interceptor that invokes its continuation at most
  once. An interceptor that invokes it a second time finds the iterator further advanced
  in the source, while here the same handlers start again: such interceptors are outside
  this model. \<open>toLowerCase\<close> is the host's \<open>String.prototype.toLowerCase\<close>, and the
  registry \<open>middleware\<close> maps a command name to its handlers, \<open>None\<close> when the
  property is absent.
\<close>

type_synonym ('w, 'r) action = "'w \<Rightarrow> 'r \<times> 'w"
type_synonym ('s, 'a, 'w, 'r) final = "'s \<Rightarrow> 'a \<Rightarrow> ('w, 'r) action"
type_synonym ('s, 'a, 'w, 'r) interceptor = "'s \<Rightarrow> 'a \<Rightarrow> ('w, 'r) action \<Rightarrow> ('w, 'r) action"

fun callNext ::
  "('s, 'a, 'w, 'r) interceptor list \<Rightarrow> ('s, 'a, 'w, 'r) final \<Rightarrow> 's \<Rightarrow> 'a \<Rightarrow> ('w, 'r) action"
where
  "callNext [] finalHandler socket args = finalHandler socket args"
| "callNext (h # iter) finalHandler socket args =
     h socket args (callNext iter finalHandler socket args)"

definition withMiddleware ::
  "(jsstring \<Rightarrow> jsstring) \<Rightarrow> (jsstring \<Rightarrow> ('s, 'a, 'w, 'r) interceptor list option) \<Rightarrow> jsstring
     \<Rightarrow> ('s, 'a, 'w, 'r) final \<Rightarrow> 's \<Rightarrow> 'a \<Rightarrow> ('w, 'r) action"
where
  "withMiddleware toLowerCase middleware command' finalHandler socket args =
     (let handlers = (case middleware (toLowerCase command') of None \<Rightarrow> [] | Some hs \<Rightarrow> hs)
      in callNext handlers finalHandler socket args)"

definition addMiddleware ::
  "(jsstring \<Rightarrow> jsstring) \<Rightarrow> jsstring \<Rightarrow> 'h \<Rightarrow> (jsstring \<Rightarrow> 'h list option) \<Rightarrow> (jsstring \<Rightarrow> 'h list option)"
where
  "addMiddleware toLowerCase command' handler middleware =
     (let command = toLowerCase command'
      in middleware(command \<mapsto> (case middleware command of None \<Rightarrow> [] | Some hs \<Rightarrow> hs) @ [handler]))"

definition setMiddleware ::
  "(jsstring \<Rightarrow> jsstring) \<Rightarrow> jsstring \<Rightarrow> 'h \<Rightarrow> (jsstring \<Rightarrow> 'h list option) \<Rightarrow> (jsstring \<Rightarrow> 'h list option)"
where
  "setMiddleware toLowerCase command' handler middleware =
     middleware(toLowerCase command' \<mapsto> [handler])"

section \<open>Sending frames\<close>

text \<open>
  \<open>genId\<close>: the prefix, \<open>'id'\<close> when none is given, followed by the random draw
  \<open>Math.floor(Math.random() * 999999999999999999999)\<close> as JavaScript writes it. The
  draw is not an integer that a number holds exactly, so it is taken in its written form,
  \<open>drawn\<close>.
\<close>

definition genId :: "jsstring option \<Rightarrow> jsstring \<Rightarrow> jsstring" where
  "genId type drawn =
     (case type of Some t \<Rightarrow> if t \<noteq> [] then t else js ''id'' | None \<Rightarrow> js ''id'') @ drawn"

text \<open>
  \<open>sendFrame\<close>: no frame owns a \<open>toString\<close> property, so the frame is always copied
  into a new \<open>Frame\<close> with the same command, headers and body before it is written.
\<close>

definition sendFrame :: "nat \<Rightarrow> Frame \<Rightarrow> world \<Rightarrow> world" where
  "sendFrame socket frame' w =
     (let frame = \<lparr>command = command frame', headers = headers frame', body = body frame'\<rparr>
      in socket_send socket (toStringOrBuffer frame) w)"

text \<open>
  \<open>sendCommand\<close>. \<open>want_receipt\<close> is \<open>Some r\<close> when the caller passes \<open>true\<close>, \<open>r\<close>
  being the written random draw of the \<open>genId('r')\<close> that follows.
\<close>

definition sendCommand ::
  "nat \<Rightarrow> jsstring \<Rightarrow> headers option \<Rightarrow> jsvalue \<Rightarrow> jsstring option \<Rightarrow> world \<Rightarrow> Frame \<times> world"
where
  "sendCommand socket command' headers' body' want_receipt w =
     (let headers = (case headers' of None \<Rightarrow> [] | Some hs \<Rightarrow> hs);
          headers = (case want_receipt of
                       Some r \<Rightarrow> hset headers (js ''receipt'') (VString (genId (Some (js ''r'')) r))
                     | None \<Rightarrow> headers);
          frame = \<lparr>command = Some command', headers = headers, body = body'\<rparr>
      in (frame, sendFrame socket frame w))"

definition ServerFrame_CONNECTED :: "nat \<Rightarrow> jsstring \<Rightarrow> jsstring \<Rightarrow> world \<Rightarrow> world" where
  "ServerFrame_CONNECTED socket heartbeat' serverName' w =
     snd (sendCommand socket (js ''CONNECTED'')
            (Some [(js ''session'', VString (sessionId (sockets w socket))),
                   (js ''server'', VString serverName'),
                   (js ''heart-beat'', VString heartbeat'),
                   (js ''content-length'', VNumber 0),
                   (js ''version'', VString (js ''1.1''))])
            VUndefined None w)"

definition ServerFrame_RECEIPT :: "nat \<Rightarrow> jsvalue \<Rightarrow> world \<Rightarrow> world" where
  "ServerFrame_RECEIPT socket receipt w =
     snd (sendCommand socket (js ''RECEIPT'') (Some [(js ''receipt-id'', receipt)]) VUndefined None w)"

definition ServerFrame_ERROR :: "nat \<Rightarrow> jsstring \<Rightarrow> jsstring option \<Rightarrow> world \<Rightarrow> world" where
  "ServerFrame_ERROR socket message description w =
     (let len = (case description of Some d \<Rightarrow> if d \<noteq> [] then int (length d) else 0 | None \<Rightarrow> 0);
          headers = [(js ''message'', VString message),
                     (js ''content-type'', VString (js ''text/plain'')),
                     (js ''content-length'', VNumber len)]
      in snd (sendCommand socket (js ''ERROR'') (Some headers)
                (case description of Some d \<Rightarrow> VString d | None \<Rightarrow> VUndefined) None w))"

section \<open>Heartbeat\<close>

text \<open>
  \<open>setInterval\<close> registers a timer under a fresh handle and \<open>clearInterval\<close> removes
  it; the callback is identified by what it closes over.
\<close>

definition setInterval :: "timer \<Rightarrow> world \<Rightarrow> nat \<times> world" where
  "setInterval t w =
     (nextHandle w, w\<lparr>timers := timers w @ [(nextHandle w, t)], nextHandle := nextHandle w + 1\<rparr>)"

definition clearInterval :: "nat \<Rightarrow> world \<Rightarrow> world" where
  "clearInterval h w = w\<lparr>timers := filter (\<lambda>(h', t). h' \<noteq> h) (timers w)\<rparr>"

text \<open>The callback of the server-side timer.\<close>

definition ping_tick :: "nat \<Rightarrow> world \<Rightarrow> world" where
  "ping_tick socket w =
     (if readyState (sockets w socket) = 1 then socket_send socket [LF] w else w)"

text \<open>
  The callback of the client-side timer. It exists only after \<open>heartbeatOn\<close> has
  written \<open>heartbeatTime\<close>, so the field always holds a number when it is read.
\<close>

definition health_tick :: "nat \<Rightarrow> int \<Rightarrow> world \<Rightarrow> world" where
  "health_tick socket interval w =
     (let diff = now w - heartbeatTime (sockets w socket)
      in if diff > interval + heartbeatErrorMargin (conf w)
         then socket_close socket w
         else update_socket socket (\<lambda>s. s\<lparr>heartbeatTime := heartbeatTime s - diff\<rparr>) w)"

text \<open>The event loop runs the callback of a live timer; a cleared handle does nothing.\<close>

definition fire :: "nat \<Rightarrow> world \<Rightarrow> world" where
  "fire h w =
     (case map_of (timers w) h of
        None \<Rightarrow> w
      | Some t \<Rightarrow>
          if timerServerSide t then ping_tick (timerSocket t) w
          else health_tick (timerSocket t) (timerInterval t) w)"

definition heartbeatOn :: "nat \<Rightarrow> int \<Rightarrow> bool \<Rightarrow> world \<Rightarrow> world" where
  "heartbeatOn socket interval serverSide w =
     (if serverSide
      then let (h, w) = setInterval
                 \<lparr>timerSocket = socket, timerInterval = interval, timerServerSide = True\<rparr> w
           in update_socket socket (\<lambda>s. s\<lparr>heartbeatClock := Some h\<rparr>) w
      else let w = update_socket socket (\<lambda>s. s\<lparr>heartbeatTime := now w + interval\<rparr>) w;
               (h, w) = setInterval
                 \<lparr>timerSocket = socket, timerInterval = interval, timerServerSide = False\<rparr> w
           in update_socket socket (\<lambda>s. s\<lparr>heartbeatClock := Some h\<rparr>) w)"

definition heartbeatOff :: "nat \<Rightarrow> world \<Rightarrow> world" where
  "heartbeatOff socket w =
     (case heartbeatClock (sockets w socket) of
        Some h \<Rightarrow> update_socket socket (\<lambda>s. s\<lparr>heartbeatClock := None\<rparr>) (clearInterval h w)
      | None \<Rightarrow> w)"

text \<open>
  \<open>afterConnectionClose\<close>: the loop deletes every subscription of the session, leaving
  a hole in the array, then the heartbeat is turned off.
\<close>

fun afterConnectionClose_loop :: "jsstring \<Rightarrow> Subscribe option list \<Rightarrow> Subscribe option list" where
  "afterConnectionClose_loop sid [] = []"
| "afterConnectionClose_loop sid (None # subs) = None # afterConnectionClose_loop sid subs"
| "afterConnectionClose_loop sid (Some sub # subs) =
     (if sessionId' sub = sid then None else Some sub) # afterConnectionClose_loop sid subs"

definition afterConnectionClose :: "nat \<Rightarrow> world \<Rightarrow> world" where
  "afterConnectionClose socket w =
     (let w = w\<lparr>subscribes :=
                  afterConnectionClose_loop (sessionId (sockets w socket)) (subscribes w)\<rparr>
      in heartbeatOff socket w)"

section \<open>Command handlers\<close>

type_synonym 'a middleware = "jsstring \<Rightarrow> 'a list option"

type_synonym connect_args = "int option list \<times> headers"
type_synonym connect_interceptor = "(nat, connect_args, world, jsvalue) interceptor"

text \<open>The terminal handler behind \<open>onClientConnected\<close>.\<close>

definition js_nth :: "int option list \<Rightarrow> nat \<Rightarrow> int option" where
  "js_nth xs i = (if i < length xs then xs ! i else None)"

definition onClientConnected_final :: "(nat, connect_args, world, jsvalue) final" where
  "onClientConnected_final socket args w =
     (let (heartbeat', headers') = args;
          w = update_socket socket
                (\<lambda>s. s\<lparr>clientHeartbeat := Some (js_nth heartbeat' 0, js_nth heartbeat' 1)\<rparr>) w;
          w = emit (js ''connected'')
                [VString (sessionId (sockets w socket)), VObject headers'] w
      in (VBool True, w))"

definition onClientConnected ::
  "(jsstring \<Rightarrow> jsstring) \<Rightarrow> connect_interceptor middleware \<Rightarrow> nat \<Rightarrow> connect_args
     \<Rightarrow> (world, jsvalue) action"
where
  "onClientConnected toLowerCase middleware =
     withMiddleware toLowerCase middleware (js ''connect'') onClientConnected_final"

text \<open>
  \<open>FrameHandler.CONNECT\<close>. \<open>parseInt\<close> is the host's function, \<open>None\<close> its \<open>NaN\<close>;
  a missing array element is \<open>undefined\<close>, and both compare \<open>false\<close> with \<open>> 0\<close>. A
  \<open>heart-beat\<close> header that is truthy but not a string has no \<open>split\<close>.
\<close>

datatype exn = TypeError | Thrown jsstring

definition gt0 :: "int option \<Rightarrow> bool" where
  "gt0 x = (case x of Some i \<Rightarrow> i > 0 | None \<Rightarrow> False)"

definition CONNECT ::
  "(jsstring \<Rightarrow> int option) \<Rightarrow> (jsstring \<Rightarrow> jsstring) \<Rightarrow> connect_interceptor middleware
     \<Rightarrow> nat \<Rightarrow> Frame \<Rightarrow> world \<Rightarrow> exn + world"
where
  "CONNECT parseInt toLowerCase middleware socket frame w =
     (let rawHeartbeat = hget (headers frame) (js ''heart-beat'')
      in case (if truthy rawHeartbeat
               then (case rawHeartbeat of
                       VString raw \<Rightarrow> Inr (map parseInt (split [COMMA] raw))
                     | _ \<Rightarrow> Inl TypeError)
               else Inr [Some 0, Some 0]) of
           Inl e \<Rightarrow> Inl e
         | Inr clientHeartbeat' \<Rightarrow>
             let serverHeartbeat = (0, 0);
                 (serverHeartbeat, w) =
                   (if gt0 (js_nth clientHeartbeat' 0) \<and> snd (heartbeat (conf w)) > 0
                    then let interval = max (the (js_nth clientHeartbeat' 0)) (snd (heartbeat (conf w)))
                         in ((fst serverHeartbeat, interval), heartbeatOn socket interval False w)
                    else if gt0 (js_nth clientHeartbeat' 1) \<and> fst (heartbeat (conf w)) > 0
                    then let interval = max (the (js_nth clientHeartbeat' 1)) (fst (heartbeat (conf w)))
                         in ((interval, snd serverHeartbeat), heartbeatOn socket interval True w)
                    else (serverHeartbeat, w));
                 (accepted, w) =
                   onClientConnected toLowerCase middleware socket (clientHeartbeat', headers frame) w
             in Inr (if truthy accepted
                     then ServerFrame_CONNECTED socket
                            (join [COMMA] [number_to_string (fst serverHeartbeat),
                                           number_to_string (snd serverHeartbeat)])
                            (serverName (conf w)) w
                     else ServerFrame_ERROR socket (js ''CONNECTION ERROR'')
                            (Some (js ''CONNECTION ERROR'')) w))"

section \<open>Publishing\<close>

text \<open>\<open>_checkSubMatchDest\<close>.\<close>

definition checkSubMatchDest :: "Subscribe \<Rightarrow> jsstring \<times> Frame \<Rightarrow> bool" where
  "checkSubMatchDest sub args = match_tokens (tokens sub) (tokenizeDestination (fst args))"

text \<open>
  \<open>_sendToSubscriptions\<close>: the loop over the registry. The frame of \<open>args\<close> is one
  object, so the headers written for one subscriber stay in it for the next.
\<close>

fun sendToSubscriptions_loop ::
  "client \<Rightarrow> jsstring \<Rightarrow> Subscribe option list \<Rightarrow> Frame \<Rightarrow> world \<Rightarrow> Frame \<times> world"
where
  "sendToSubscriptions_loop socket dest [] frame w = (frame, w)"
| "sendToSubscriptions_loop socket dest (None # subs) frame w =
     sendToSubscriptions_loop socket dest subs frame w"
| "sendToSubscriptions_loop socket dest (Some sub # subs) frame w =
     (if sessionId_of w socket = sessionId' sub
      then sendToSubscriptions_loop socket dest subs frame w
      else if checkSubMatchDest sub (dest, frame)
      then let frame = frame\<lparr>headers := hset (headers frame) (js ''subscription'') (VString (id' sub))\<rparr>;
               frame = frame\<lparr>command := Some (js ''MESSAGE'')\<rparr>;
               w = (case socket' sub of
                      Some sock \<Rightarrow> sendFrame sock frame w
                    | None \<Rightarrow> emit (id' sub) [body frame, VObject (headers frame)] w)
           in sendToSubscriptions_loop socket dest subs frame w
      else sendToSubscriptions_loop socket dest subs frame w)"

definition sendToSubscriptions :: "client \<Rightarrow> jsstring \<times> Frame \<Rightarrow> world \<Rightarrow> Frame \<times> world" where
  "sendToSubscriptions socket args w =
     sendToSubscriptions_loop socket (fst args) (subscribes w) (snd args) w"

text \<open>\<open>frameSerializer\<close>; \<open>stringify\<close> is the host's \<open>JSON.stringify\<close>.\<close>

definition frameSerializer :: "(jsvalue \<Rightarrow> jsvalue) \<Rightarrow> Frame \<Rightarrow> Frame" where
  "frameSerializer stringify frame =
     (if body frame \<noteq> VUndefined
         \<and> hget (headers frame) (js ''content-type'') = VString (js ''application/json'')
      then frame\<lparr>body := stringify (body frame)\<rparr>
      else frame)"

text \<open>
  The terminal handler behind \<open>onSend\<close>; \<open>r\<close> is the written random draw of
  \<open>genId('msg')\<close>.
  The local object \<open>headers\<close> receives the defaults and then every header of the frame, and
  is not read again. The chain calls the terminal handler with the connection and the
  arguments only, so its third parameter \<open>callback\<close> is \<open>undefined\<close>.
\<close>

type_synonym send_args = "jsstring \<times> Frame"

definition onSend_final ::
  "(jsvalue \<Rightarrow> jsvalue) \<Rightarrow> jsstring \<Rightarrow> (client, send_args, world, exn + jsvalue) final"
where
  "onSend_final stringify r socket args w =
     (let bodyObj = body (snd args);
          frame = frameSerializer stringify (snd args);
          headers' = [(js ''message-id'', VString (genId (Some (js ''msg'')) r)),
                      (js ''content-type'', VString (js ''text/plain''))]
      in case (if body frame \<noteq> VUndefined
               then (case body frame of
                       VString b \<Rightarrow>
                         Inr (frame\<lparr>headers := hset (headers frame) (js ''content-length'')
                                                  (VNumber (int (utf8_length b)))\<rparr>)
                     | _ \<Rightarrow> Inl (Thrown (js ''Message body is not string'')))
               else Inr frame) of
           Inl e \<Rightarrow> (Inl e, w)
         | Inr frame \<Rightarrow>
             let headers' = foldl (\<lambda>hs (key, v). hset hs key v) headers' (for_in (headers frame));
                 args = (fst args, frame);
                 w = emit (js ''send'')
                       [VObject [(js ''frame'', VObject [(js ''headers'', VObject (headers frame)),
                                                        (js ''body'', bodyObj)]),
                                 (js ''dest'', VString (fst args))]] w;
                 (frame, w) = sendToSubscriptions socket args w
             in (Inr (VBool True), w))"

type_synonym send_interceptor = "(client, send_args, world, exn + jsvalue) interceptor"

definition onSend ::
  "(jsvalue \<Rightarrow> jsvalue) \<Rightarrow> jsstring \<Rightarrow> (jsstring \<Rightarrow> jsstring) \<Rightarrow> send_interceptor middleware
     \<Rightarrow> client \<Rightarrow> send_args \<Rightarrow> (world, exn + jsvalue) action"
where
  "onSend stringify r toLowerCase middleware =
     withMiddleware toLowerCase middleware (js ''send'') (onSend_final stringify r)"

section \<open>Frames that survive the wire\<close>

text \<open>
  A text without a blank line: no line feed is followed by another one.
\<close>

fun blank_line_free :: "jsstring \<Rightarrow> bool" where
  "blank_line_free [] = True"
| "blank_line_free [c] = True"
| "blank_line_free (c # d # cs) = (\<not> (c = LF \<and> d = LF) \<and> blank_line_free (d # cs))"

text \<open>
  A header that the parser reads back as it was written: the key has no line feed and no
  colon, is not changed by \<open>trim\<close> and is neither \<open>content-length\<close> nor
  \<open>__proto__\<close>; the value is a string without a line feed that \<open>trim\<close> does not change.
\<close>

definition plain_header :: "jsstring \<times> jsvalue \<Rightarrow> bool" where
  "plain_header h =
     (case h of (k, v) \<Rightarrow>
        LF \<notin> set k \<and> COLON \<notin> set k \<and> trim k = k
        \<and> k \<noteq> js ''content-length'' \<and> k \<noteq> js ''__proto__''
        \<and> (case v of VString s \<Rightarrow> LF \<notin> set s \<and> trim s = s | _ \<Rightarrow> False))"

text \<open>The line that \<open>toStringOrBuffer\<close> writes for one header.\<close>

definition header_line :: "jsstring \<times> jsvalue \<Rightarrow> jsstring" where
  "header_line h = (case h of (header, v) \<Rightarrow> header @ [COLON] @ to_string v)"

section \<open>Heartbeat negotiation, in the words of the specification\<close>

text \<open>
  The three rules of the specification, first match wins: the mode the server adopts with
  its effective interval, and the pair it announces.
\<close>

datatype heartbeat_mode = Disabled | ClientDrives int | ServerDrives int

definition negotiate :: "int \<times> int \<Rightarrow> int \<times> int \<Rightarrow> heartbeat_mode \<times> (int \<times> int)" where
  "negotiate client server =
     (let (cx, cy) = client; (sx, sy) = server
      in if cx > 0 \<and> sy > 0 then (ClientDrives (max cx sy), (0, max cx sy))
         else if cy > 0 \<and> sx > 0 then (ServerDrives (max cy sx), (max cy sx, 0))
         else (Disabled, (0, 0)))"

text \<open>Adopting a mode on a connection: the timer of that direction is started, or none.\<close>

definition adopt :: "nat \<Rightarrow> heartbeat_mode \<Rightarrow> world \<Rightarrow> world" where
  "adopt socket mode w =
     (case mode of
        ClientDrives i \<Rightarrow> heartbeatOn socket i False w
      | ServerDrives i \<Rightarrow> heartbeatOn socket i True w
      | Disabled \<Rightarrow> w)"

section \<open>Interceptors that pass on\<close>

text \<open>
  An interceptor passes on when it changes the state (\<open>before\<close>), invokes its
  continuation once, changes the state again (\<open>after\<close>, which may look at the state it
  started from and at the value that came back) and returns the value of the continuation.
\<close>

definition passes_on ::
  "('s, 'a, 'w, 'r) interceptor \<Rightarrow> ('s \<Rightarrow> 'a \<Rightarrow> 'w \<Rightarrow> 'w) \<Rightarrow> ('s \<Rightarrow> 'a \<Rightarrow> 'w \<Rightarrow> 'r \<Rightarrow> 'w \<Rightarrow> 'w)
     \<Rightarrow> bool"
where
  "passes_on h before after \<longleftrightarrow>
     (\<forall>socket args proceed w.
        h socket args proceed w =
          (case proceed (before socket args w) of (r, w') \<Rightarrow> (r, after socket args w r w')))"

section \<open>Subscriptions of other sessions\<close>

text \<open>The subscriptions of the registry that belong to other sessions than \<open>sid\<close>.\<close>

definition foreign_subscriptions :: "jsstring \<Rightarrow> Subscribe option list \<Rightarrow> Subscribe option list" where
  "foreign_subscriptions sid subs =
     filter (\<lambda>slot. case slot of None \<Rightarrow> False | Some sub \<Rightarrow> sessionId' sub \<noteq> sid) subs"

section \<open>Example data\<close>

text \<open>
  The value of the host's \<open>toLowerCase\<close> on the command names used below, which are
  written in lower case already.
\<close>

definition same_name :: "jsstring \<Rightarrow> jsstring" where
  [simp]: "same_name s = s"

text \<open>
  An in-process subscription to a topic, as \<open>subscribe(topic)\<close> builds it, and a frame
  with nothing in it.
\<close>

definition pattern :: "jsstring \<Rightarrow> Subscribe" where
  "pattern t = \<lparr>id' = js ''self_1'', sessionId' = js ''self_1234'', topic = t,
                tokens = tokenizeDestination t, socket' = None\<rparr>"

definition no_frame :: Frame where
  "no_frame = \<lparr>command = None, headers = [], body = VUndefined\<rparr>"

text \<open>
  A broker configured with heartbeat \<open>[0, 10000]\<close> and two open connections: number
  \<open>0\<close> with session \<open>A\<close>, every other number with session \<open>B\<close>.
\<close>

definition new_socket :: "jsstring \<Rightarrow> WebSocket" where
  "new_socket sid = \<lparr>sessionId = sid, readyState = 1, clientHeartbeat = None,
                     heartbeatClock = None, heartbeatTime = 0, sent = [], closeCalls = 0\<rparr>"

definition example_world :: world where
  "example_world =
     \<lparr>conf = \<lparr>serverName = js ''STOMP-JS/1.0'', heartbeat = (0, 10000),
              heartbeatErrorMargin = 1000\<rparr>,
      subscribes = [],
      sockets = (\<lambda>n. if n = 0 then new_socket (js ''A'') else new_socket (js ''B'')),
      timers = [], nextHandle = 0, now = 0, emitted = []\<rparr>"

text \<open>A subscription of a connection, as \<open>onSubscribe\<close> builds it.\<close>

definition subscription :: "world \<Rightarrow> nat \<Rightarrow> jsstring \<Rightarrow> jsstring \<Rightarrow> Subscribe" where
  "subscription w n i t = \<lparr>id' = i, sessionId' = sessionId (sockets w n), topic = t,
                           tokens = tokenizeDestination t, socket' = Some n\<rparr>"

text \<open>
  The example broker after connection \<open>0\<close> has subscribed as \<open>s1\<close>, connection \<open>1\<close>
  as \<open>s2\<close>, one array element has been deleted, and a client-side heartbeat of 10000 ms
  runs on connection \<open>0\<close>.
\<close>

definition connected_world :: world where
  "connected_world =
     heartbeatOn 0 10000 False
       (example_world\<lparr>subscribes :=
          [Some (subscription example_world 0 (js ''s1'') (js ''/topic/foo.*'')),
           None,
           Some (subscription example_world 1 (js ''s2'') (js ''/topic/foo.*''))]\<rparr>)"

text \<open>
  The example broker with connection \<open>0\<close> (session \<open>A\<close>) subscribed to
  \<open>/topic/foo.*\<close> as \<open>s1\<close>, and the SEND frame that connection \<open>1\<close> (session \<open>B\<close>)
  publishes to \<open>/topic/foo.bar\<close>, as \<open>parseFrame\<close> delivers it.
\<close>

definition publish_world :: world where
  "publish_world =
     example_world\<lparr>subscribes :=
       [Some (subscription example_world 0 (js ''s1'') (js ''/topic/foo.*''))]\<rparr>"

definition send_frame :: Frame where
  "send_frame =
     \<lparr>command = Some (js ''SEND''),
      headers = [(js ''destination'', VString (js ''/topic/foo.bar''))],
      body = VString (js ''hello'')\<rparr>"

text \<open>A SEND frame with two headers and a body of two lines.\<close>

definition text_frame :: Frame where
  "text_frame =
     \<lparr>command = Some (js ''SEND''),
      headers = [(js ''destination'', VString (js ''/topic/foo.bar'')),
                 (js ''receipt'', VString (js ''r:1''))],
      body = VString (js ''hello\<newline>world'')\<rparr>"

text \<open>
  A CONNECT frame proposing the heartbeat \<open>5000,5000\<close>, and the value of the host's
  \<open>parseInt\<close> on the one string it is applied to here.
\<close>

definition connect_frame :: Frame where
  "connect_frame =
     \<lparr>command = Some (js ''CONNECT''),
      headers = [(js ''accept-version'', VString (js ''1.1'')),
                 (js ''heart-beat'', VString (js ''5000,5000''))],
      body = VString []\<rparr>"

definition parse5000 :: "jsstring \<Rightarrow> int option" where
  "parse5000 s = (if s = js ''5000'' then Some 5000 else None)"

text \<open>
  Interceptors on a state that is a log of numbers: one writes its number and passes on,
  one invokes its continuation and returns \<open>false\<close> whatever came back. The terminal
  handler writes \<open>0\<close> and returns \<open>true\<close>.
\<close>

definition logging_interceptor :: "nat \<Rightarrow> (nat, unit, nat list, bool) interceptor" where
  "logging_interceptor i socket args proceed w = proceed (w @ [i])"

definition overriding_interceptor :: "(nat, unit, nat list, bool) interceptor" where
  "overriding_interceptor socket args proceed w = (case proceed w of (r, w') \<Rightarrow> (False, w'))"

definition logging_final :: "(nat, unit, nat list, bool) final" where
  "logging_final socket args w = (True, w @ [0])"

text \<open>An interceptor that rejects: it returns \<open>false\<close> without invoking its continuation.\<close>

definition rejecting_interceptor :: connect_interceptor where
  "rejecting_interceptor socket args proceed w = (VBool False, w)"

text \<open>
  A CONNECT frame of a client that sends no heartbeat and asks for one every 5000 ms,
  the value of the host's \<open>parseInt\<close> on the two strings it is applied to there, and the
  example broker configured with heartbeat \<open>[20000, 0]\<close>.
\<close>

definition listening_frame :: Frame where
  "listening_frame =
     \<lparr>command = Some (js ''CONNECT''),
      headers = [(js ''accept-version'', VString (js ''1.1'')),
                 (js ''heart-beat'', VString (js ''0,5000''))],
      body = VString []\<rparr>"

definition parse_0_5000 :: "jsstring \<Rightarrow> int option" where
  "parse_0_5000 s = (if s = js ''0'' then Some 0 else if s = js ''5000'' then Some 5000 else None)"

definition pinging_world :: world where
  "pinging_world = example_world\<lparr>conf := (conf example_world)\<lparr>heartbeat := (20000, 0)\<rparr>\<rparr>"

text \<open>
  The example broker with connection \<open>0\<close> subscribed as \<open>s1\<close> and connection \<open>1\<close> as
  \<open>s2\<close>; that broker after connection \<open>0\<close> has sent the CONNECT frame proposing
  \<open>5000,5000\<close> once, and after it has sent it a second time. No interceptor is
  registered.
\<close>

definition subscribed_world :: world where
  "subscribed_world =
     example_world\<lparr>subscribes :=
       [Some (subscription example_world 0 (js ''s1'') (js ''/topic/foo.*'')),
        Some (subscription example_world 1 (js ''s2'') (js ''/topic/foo.*''))]\<rparr>"

definition once_connected :: world where
  "once_connected =
     projr (CONNECT parse5000 same_name Map.empty 0 connect_frame subscribed_world)"

definition twice_connected :: world where
  "twice_connected = projr (CONNECT parse5000 same_name Map.empty 0 connect_frame once_connected)"

section \<open>Properties\<close>

subsection \<open>Unfolding rules\<close>

lemmas js_chars = js_def DOT_def SLASH_def LF_def NUL_def COLON_def COMMA_def

lemmas example_defs = example_world_def new_socket_def subscription_def connected_world_def

lemmas heartbeat_defs = heartbeatOn_def heartbeatOff_def setInterval_def clearInterval_def
  update_socket_def

lemmas connect_defs = onClientConnected_def withMiddleware_def onClientConnected_final_def
  emit_def ServerFrame_CONNECTED_def ServerFrame_ERROR_def sendCommand_def sendFrame_def
  socket_send_def

lemmas publish_defs = onSend_def onSend_final_def withMiddleware_def frameSerializer_def
  sendToSubscriptions_def checkSubMatchDest_def emit_def sendFrame_def socket_send_def
  update_socket_def sessionId_of_def hget_def hset_def

lemmas parse_defs = parseFrame_def parseCommand_def parseHeaders_def parseHeaders_line_def
  split_def trim_def is_space_def hhas_def hset_def hget_def trimNull_def

lemmas CONNECT_eval = CONNECT_def connect_frame_def parse5000_def hget_def js_nth_def gt0_def
  connect_defs example_defs heartbeat_defs split_def js_chars Let_def

subsection \<open>Topic matcher\<close>

lemma match_tokens_short:
  "length subTokens < length dest \<Longrightarrow> js ''**'' \<notin> set subTokens \<Longrightarrow>
   \<not> match_tokens subTokens dest"
  by (induction subTokens dest rule: match_tokens.induct) auto

lemma match_tokens_no_mismatch:
  "\<forall>i < length dest. i < length subTokens \<and>
      (subTokens ! i = dest ! i \<or> subTokens ! i = js ''*'' \<or> subTokens ! i = js ''**'') \<Longrightarrow>
   match_tokens subTokens dest"
proof (induction subTokens dest rule: match_tokens.induct)
  case (1 subTokens)
  show ?case by simp
next
  case (2 token tokens)
  then show ?case by auto
next
  case (3 s subTokens token tokens)
  from "3.prems" have head: "s = token \<or> s = js ''*'' \<or> s = js ''**''"
    by force
  from "3.prems" have rest:
    "\<forall>i < length tokens. i < length subTokens \<and>
       (subTokens ! i = tokens ! i \<or> subTokens ! i = js ''*'' \<or> subTokens ! i = js ''**'')"
    by force
  show ?case
  proof (cases "s = js ''**''")
    case True
    then show ?thesis by simp
  next
    case False
    with head rest "3.IH" show ?thesis by auto
  qed
qed

lemma match_tokens_wildcard:
  "length pre = length dpre \<Longrightarrow> match_tokens pre dpre \<Longrightarrow>
   match_tokens (pre @ js ''**'' # rest) (dpre @ drest)"
proof (induction pre dpre rule: match_tokens.induct)
  case (1 subTokens)
  then show ?case by (cases drest) auto
next
  case (2 token tokens)
  then show ?case by simp
next
  case (3 s subTokens token tokens)
  then show ?case by (auto split: if_splits)
qed

text \<open>
  C5. With destination tokens \<open>[a, b, c]\<close> the pattern \<open>a.*.c\<close> matches and \<open>a.*.d\<close>
  does not; the pattern \<open>a.**\<close> matches \<open>[a]\<close>, \<open>[a, b]\<close> and \<open>[a, b, c]\<close>. A pattern
  with fewer tokens than the destination and no \<open>**\<close> does not match. A \<open>**\<close> reached
  after matching tokens makes the match succeed whatever destination tokens remain. When
  every destination token is consumed without a mismatch, the match succeeds.
\<close>

theorem topic_matcher:
  "tokenizeDestination (js ''/a.b.c'') = [js ''a'', js ''b'', js ''c'']
   \<and> checkSubMatchDest (sub\<lparr>tokens := tokenizeDestination (js ''/a.*.c'')\<rparr>) (js ''/a.b.c'', frame)
   \<and> \<not> checkSubMatchDest (sub\<lparr>tokens := tokenizeDestination (js ''/a.*.d'')\<rparr>) (js ''/a.b.c'', frame)
   \<and> checkSubMatchDest (sub\<lparr>tokens := tokenizeDestination (js ''/a.**'')\<rparr>) (js ''/a'', frame)
   \<and> checkSubMatchDest (sub\<lparr>tokens := tokenizeDestination (js ''/a.**'')\<rparr>) (js ''/a.b'', frame)
   \<and> checkSubMatchDest (sub\<lparr>tokens := tokenizeDestination (js ''/a.**'')\<rparr>) (js ''/a.b.c'', frame)
   \<and> (length (tokens sub) < length (tokenizeDestination dest) \<and> js ''**'' \<notin> set (tokens sub)
        \<longrightarrow> \<not> checkSubMatchDest sub (dest, frame))
   \<and> (length pre = length dpre \<and> match_tokens pre dpre
        \<longrightarrow> match_tokens (pre @ js ''**'' # rest) (dpre @ drest))
   \<and> ((\<forall>i < length (tokenizeDestination dest'). i < length (tokens sub') \<and>
          (tokens sub' ! i = tokenizeDestination dest' ! i \<or> tokens sub' ! i = js ''*''
           \<or> tokens sub' ! i = js ''**''))
        \<longrightarrow> checkSubMatchDest sub' (dest', frame))"
proof -
  have c0: "tokenizeDestination (js ''/a.b.c'') = [js ''a'', js ''b'', js ''c'']"
    by (simp add: tokenizeDestination_def split_def js_chars)
  have c1: "checkSubMatchDest (sub\<lparr>tokens := tokenizeDestination (js ''/a.*.c'')\<rparr>) (js ''/a.b.c'', frame)"
    by (simp add: checkSubMatchDest_def tokenizeDestination_def split_def js_chars)
  have c2: "\<not> checkSubMatchDest (sub\<lparr>tokens := tokenizeDestination (js ''/a.*.d'')\<rparr>) (js ''/a.b.c'', frame)"
    by (simp add: checkSubMatchDest_def tokenizeDestination_def split_def js_chars)
  have c3: "checkSubMatchDest (sub\<lparr>tokens := tokenizeDestination (js ''/a.**'')\<rparr>) (js ''/a'', frame)"
    by (simp add: checkSubMatchDest_def tokenizeDestination_def split_def js_chars)
  have c4: "checkSubMatchDest (sub\<lparr>tokens := tokenizeDestination (js ''/a.**'')\<rparr>) (js ''/a.b'', frame)"
    by (simp add: checkSubMatchDest_def tokenizeDestination_def split_def js_chars)
  have c5: "checkSubMatchDest (sub\<lparr>tokens := tokenizeDestination (js ''/a.**'')\<rparr>) (js ''/a.b.c'', frame)"
    by (simp add: checkSubMatchDest_def tokenizeDestination_def split_def js_chars)
  have c6: "length (tokens sub) < length (tokenizeDestination dest) \<and> js ''**'' \<notin> set (tokens sub)
        \<longrightarrow> \<not> checkSubMatchDest sub (dest, frame)"
    by (simp add: checkSubMatchDest_def match_tokens_short)
  have c7: "length pre = length dpre \<and> match_tokens pre dpre
        \<longrightarrow> match_tokens (pre @ js ''**'' # rest) (dpre @ drest)"
    by (simp add: match_tokens_wildcard)
  have c8: "(\<forall>i < length (tokenizeDestination dest'). i < length (tokens sub') \<and>
          (tokens sub' ! i = tokenizeDestination dest' ! i \<or> tokens sub' ! i = js ''*''
           \<or> tokens sub' ! i = js ''**''))
        \<longrightarrow> checkSubMatchDest sub' (dest', frame)"
    unfolding checkSubMatchDest_def fst_conv by (rule impI, rule match_tokens_no_mismatch)
  show ?thesis
    by (intro conjI c0 c1 c2 c3 c4 c5 c6 c7 c8)
qed

theorem topic_matcher_witness:
  "(length (tokens (pattern (js ''/a.b''))) < length (tokenizeDestination (js ''/a.b.c''))
    \<and> js ''**'' \<notin> set (tokens (pattern (js ''/a.b'')))
    \<and> \<not> checkSubMatchDest (pattern (js ''/a.b'')) (js ''/a.b.c'', no_frame))
   \<and> (length [js ''a''] = length [js ''a''] \<and> match_tokens [js ''a''] [js ''a'']
    \<and> match_tokens ([js ''a''] @ js ''**'' # [js ''z'']) ([js ''a''] @ [js ''b'', js ''c'']))
   \<and> (tokenizeDestination (js ''/a.b.c'') = [js ''a'', js ''b'', js ''c'']
    \<and> tokens (pattern (js ''/a.*.c'')) = [js ''a'', js ''*'', js ''c'']
    \<and> checkSubMatchDest (pattern (js ''/a.*.c'')) (js ''/a.b.c'', no_frame))"
proof -
  have t1: "tokenizeDestination (js ''/a.b.c'') = [js ''a'', js ''b'', js ''c'']"
    by (simp add: tokenizeDestination_def split_def js_chars)
  have t2: "tokens (pattern (js ''/a.b'')) = [js ''a'', js ''b'']"
    by (simp add: pattern_def tokenizeDestination_def split_def js_chars)
  have t3: "tokens (pattern (js ''/a.*.c'')) = [js ''a'', js ''*'', js ''c'']"
    by (simp add: pattern_def tokenizeDestination_def split_def js_chars)
  have h1: "length (tokens (pattern (js ''/a.b''))) < length (tokenizeDestination (js ''/a.b.c''))
            \<and> js ''**'' \<notin> set (tokens (pattern (js ''/a.b'')))"
    unfolding t1 t2 by (simp add: js_def)
  have h2: "length [js ''a''] = length [js ''a''] \<and> match_tokens [js ''a''] [js ''a'']"
    by simp
  have h3: "\<forall>i < length (tokenizeDestination (js ''/a.b.c'')).
          i < length (tokens (pattern (js ''/a.*.c''))) \<and>
          (tokens (pattern (js ''/a.*.c'')) ! i = tokenizeDestination (js ''/a.b.c'') ! i
           \<or> tokens (pattern (js ''/a.*.c'')) ! i = js ''*''
           \<or> tokens (pattern (js ''/a.*.c'')) ! i = js ''**'')"
    by (simp add: t1 t3 less_Suc_eq)
  from h1 h2 h3 t1 t3
    topic_matcher [where sub = "pattern (js ''/a.b'')" and dest = "js ''/a.b.c''"
      and frame = no_frame and pre = "[js ''a'']" and dpre = "[js ''a'']"
      and rest = "[js ''z'']" and drest = "[js ''b'', js ''c'']"
      and sub' = "pattern (js ''/a.*.c'')" and dest' = "js ''/a.b.c''"]
  show ?thesis by blast
qed

text \<open>
  C9. A pattern with strictly more tokens than the destination matches as soon as every
  destination token equals the pattern token at its index or that pattern token is \<open>*\<close>:
  the pattern tokens beyond the destination are never read.
\<close>

theorem longer_pattern_matches:
  assumes "length (tokenizeDestination dest) < length (tokens sub)"
    and "\<forall>i < length (tokenizeDestination dest).
           tokens sub ! i = tokenizeDestination dest ! i \<or> tokens sub ! i = js ''*''"
  shows "checkSubMatchDest sub (dest, frame)"
  unfolding checkSubMatchDest_def fst_conv
  using assms by (intro match_tokens_no_mismatch) auto

theorem longer_pattern_matches_witness:
  "length (tokenizeDestination (js ''/foo.bar'')) < length (tokens (pattern (js ''/foo.bar.baz'')))
   \<and> tokenizeDestination (js ''/foo.bar'') = [js ''foo'', js ''bar'']
   \<and> tokens (pattern (js ''/foo.bar.baz'')) = [js ''foo'', js ''bar'', js ''baz'']
   \<and> checkSubMatchDest (pattern (js ''/foo.bar.baz'')) (js ''/foo.bar'', no_frame)"
proof -
  have t1: "tokenizeDestination (js ''/foo.bar'') = [js ''foo'', js ''bar'']"
    by (simp add: tokenizeDestination_def split_def js_chars)
  have t2: "tokens (pattern (js ''/foo.bar.baz'')) = [js ''foo'', js ''bar'', js ''baz'']"
    by (simp add: pattern_def tokenizeDestination_def split_def js_chars)
  have h1: "length (tokenizeDestination (js ''/foo.bar'')) < length (tokens (pattern (js ''/foo.bar.baz'')))"
    by (simp add: t1 t2)
  have h2: "\<forall>i < length (tokenizeDestination (js ''/foo.bar'')).
              tokens (pattern (js ''/foo.bar.baz'')) ! i = tokenizeDestination (js ''/foo.bar'') ! i
              \<or> tokens (pattern (js ''/foo.bar.baz'')) ! i = js ''*''"
    by (simp add: t1 t2 less_Suc_eq)
  from longer_pattern_matches [OF h1 h2, of no_frame] h1 t1 t2 show ?thesis by simp
qed

subsection \<open>Interceptor chain\<close>

lemma callNext_passes_on:
  "list_all2 (\<lambda>h e. passes_on h (fst e) (snd e)) handlers effects \<Longrightarrow>
   fst (callNext handlers finalHandler socket args w) =
   fst (finalHandler socket args (foldl (\<lambda>w e. fst e socket args w) w effects))"
proof (induction handlers effects arbitrary: w rule: list_all2_induct)
  case Nil
  then show ?case by simp
next
  case (Cons h handlers e effects)
  from Cons.hyps(1) have
    "callNext (h # handlers) finalHandler socket args w =
       (case callNext handlers finalHandler socket args (fst e socket args w) of
          (r, w') \<Rightarrow> (r, snd e socket args w r w'))"
    by (simp add: passes_on_def)
  then have "fst (callNext (h # handlers) finalHandler socket args w) =
             fst (callNext handlers finalHandler socket args (fst e socket args w))"
    by (simp add: case_prod_beta)
  with Cons.IH show ?case by simp
qed

text \<open>
  C7, as stated, fails: an interceptor that invokes its continuation decides itself what it
  returns. With one registered interceptor that calls the continuation and returns
  \<open>false\<close>, the terminal handler runs (the log holds its \<open>0\<close>) and returns \<open>true\<close>, and
  the chain returns \<open>false\<close>.
\<close>

theorem chain_value_counterexample:
  "withMiddleware same_name
     (addMiddleware same_name (js ''connect'') overriding_interceptor Map.empty)
     (js ''connect'') logging_final 7 () [] = (False, [0])
   \<and> logging_final 7 () [] = (True, [0])"
  by (simp add: withMiddleware_def addMiddleware_def overriding_interceptor_def logging_final_def)

text \<open>
  C7, amended. When every interceptor registered for the command invokes its continuation
  once and returns what the continuation returned, the terminal handler runs on the state
  reached by the interceptors' effects taken in registration order, and the value of the
  chain is the value the terminal handler returns there.
\<close>

theorem chain_order_and_value:
  assumes "list_all2 (\<lambda>h e. passes_on h (fst e) (snd e))
             (case middleware (toLowerCase command') of None \<Rightarrow> [] | Some hs \<Rightarrow> hs) effects"
  shows "fst (withMiddleware toLowerCase middleware command' finalHandler socket args w) =
         fst (finalHandler socket args (foldl (\<lambda>w e. fst e socket args w) w effects))"
  using assms by (simp add: withMiddleware_def callNext_passes_on)

theorem chain_order_and_value_witness:
  "withMiddleware same_name
     (addMiddleware same_name (js ''connect'') (logging_interceptor 2)
       (addMiddleware same_name (js ''connect'') (logging_interceptor 1) Map.empty))
     (js ''connect'') logging_final 7 () [] = (True, [1, 2, 0])
   \<and> fst (withMiddleware same_name
     (addMiddleware same_name (js ''connect'') (logging_interceptor 2)
       (addMiddleware same_name (js ''connect'') (logging_interceptor 1) Map.empty))
     (js ''connect'') logging_final 7 () []) = fst (logging_final 7 () [1, 2])"
proof -
  let ?mw = "addMiddleware same_name (js ''connect'') (logging_interceptor 2)
       (addMiddleware same_name (js ''connect'') (logging_interceptor 1) Map.empty)"
  let ?effects = "[(\<lambda>socket args w. w @ [1], \<lambda>socket args w r w'. w'),
                   (\<lambda>socket args w. w @ [2], \<lambda>socket args w r w'. w')]
                  :: ((nat \<Rightarrow> unit \<Rightarrow> nat list \<Rightarrow> nat list)
                      \<times> (nat \<Rightarrow> unit \<Rightarrow> nat list \<Rightarrow> bool \<Rightarrow> nat list \<Rightarrow> nat list)) list"
  have p: "\<And>i. passes_on (logging_interceptor i) (\<lambda>socket args w. w @ [i]) (\<lambda>socket args w r w'. w')"
    by (simp add: passes_on_def logging_interceptor_def)
  have h: "list_all2 (\<lambda>h e. passes_on h (fst e) (snd e))
             (case ?mw (same_name (js ''connect'')) of None \<Rightarrow> [] | Some hs \<Rightarrow> hs) ?effects"
    by (simp add: addMiddleware_def p)
  have trace: "withMiddleware same_name ?mw (js ''connect'') logging_final 7 () [] = (True, [1, 2, 0])"
    by (simp add: withMiddleware_def addMiddleware_def logging_interceptor_def logging_final_def)
  from chain_order_and_value [where toLowerCase = same_name and middleware = ?mw
      and command' = "js ''connect''" and effects = ?effects and finalHandler = logging_final
      and socket = 7 and args = "()" and w = "[]"] h trace
  show ?thesis by simp
qed

subsection \<open>Teardown\<close>

lemma heartbeatOff_fields [simp]:
  "subscribes (heartbeatOff socket w) = subscribes w"
  "sessionId (sockets (heartbeatOff socket w) n) = sessionId (sockets w n)"
  "heartbeatClock (sockets (heartbeatOff socket w) socket) = None"
  by (simp_all add: heartbeatOff_def update_socket_def clearInterval_def split: option.splits)

lemma heartbeatOff_none: "heartbeatClock (sockets w socket) = None \<Longrightarrow> heartbeatOff socket w = w"
  by (simp add: heartbeatOff_def)

lemma heartbeatOff_timers:
  "timers (heartbeatOff socket w) =
     filter (\<lambda>(h, t). Some h \<noteq> heartbeatClock (sockets w socket)) (timers w)"
  by (auto simp: heartbeatOff_def update_socket_def clearInterval_def
      split: option.splits intro: filter_cong)

lemma afterConnectionClose_loop_idem:
  "afterConnectionClose_loop sid (afterConnectionClose_loop sid subs) =
   afterConnectionClose_loop sid subs"
  by (induction sid subs rule: afterConnectionClose_loop.induct) auto

lemma afterConnectionClose_loop_session:
  "Some sub \<in> set (afterConnectionClose_loop sid subs) \<Longrightarrow> sessionId' sub \<noteq> sid"
  by (induction sid subs rule: afterConnectionClose_loop.induct) (auto split: if_splits)

lemma afterConnectionClose_idem:
  "afterConnectionClose socket (afterConnectionClose socket w) = afterConnectionClose socket w"
proof -
  let ?w1 = "afterConnectionClose socket w"
  let ?sid = "sessionId (sockets w socket)"
  have a: "heartbeatClock (sockets ?w1 socket) = None"
    by (simp add: afterConnectionClose_def)
  have b: "sessionId (sockets ?w1 socket) = ?sid"
    by (simp add: afterConnectionClose_def)
  have c: "subscribes ?w1 = afterConnectionClose_loop ?sid (subscribes w)"
    by (simp add: afterConnectionClose_def)
  have "afterConnectionClose socket ?w1 =
          heartbeatOff socket
            (?w1\<lparr>subscribes := afterConnectionClose_loop ?sid (subscribes ?w1)\<rparr>)"
    by (simp add: afterConnectionClose_def [of socket ?w1] b)
  also have "\<dots> = heartbeatOff socket (?w1\<lparr>subscribes := subscribes ?w1\<rparr>)"
    by (simp only: c afterConnectionClose_loop_idem)
  also have "\<dots> = heartbeatOff socket ?w1"
    by simp
  also have "\<dots> = ?w1"
    by (rule heartbeatOff_none [OF a])
  finally show ?thesis .
qed

text \<open>
  On every state, tearing a connection down twice leaves the state that tearing it down
  once leaves: no subscription of the session remains, the connection holds no timer
  handle, and the timer whose handle it held is no longer live. \<open>heartbeatOff\<close> on a
  connection without a timer changes nothing. No step of the teardown can fail.
\<close>

lemma afterConnectionClose_end_state:
  "afterConnectionClose socket (afterConnectionClose socket w) = afterConnectionClose socket w
   \<and> (\<forall>sub. Some sub \<in> set (subscribes (afterConnectionClose socket w))
          \<longrightarrow> sessionId' sub \<noteq> sessionId (sockets w socket))
   \<and> heartbeatClock (sockets (afterConnectionClose socket w) socket) = None
   \<and> (\<forall>h. heartbeatClock (sockets w socket) = Some h
          \<longrightarrow> map_of (timers (afterConnectionClose socket w)) h = None)
   \<and> (heartbeatClock (sockets w socket) = None \<longrightarrow> heartbeatOff socket w = w)"
proof -
  have s: "\<forall>sub. Some sub \<in> set (subscribes (afterConnectionClose socket w))
          \<longrightarrow> sessionId' sub \<noteq> sessionId (sockets w socket)"
    by (auto simp: afterConnectionClose_def dest: afterConnectionClose_loop_session)
  have c: "heartbeatClock (sockets (afterConnectionClose socket w) socket) = None"
    by (simp add: afterConnectionClose_def)
  have tm: "timers (afterConnectionClose socket w) =
     filter (\<lambda>(h, t). Some h \<noteq> heartbeatClock (sockets w socket)) (timers w)"
    by (simp add: afterConnectionClose_def heartbeatOff_timers)
  have t: "\<forall>h. heartbeatClock (sockets w socket) = Some h
          \<longrightarrow> map_of (timers (afterConnectionClose socket w)) h = None"
    by (auto simp: tm map_of_eq_None_iff)
  have n: "heartbeatClock (sockets w socket) = None \<longrightarrow> heartbeatOff socket w = w"
    by (simp add: heartbeatOff_none)
  show ?thesis
    by (intro conjI afterConnectionClose_idem s c t n)
qed

text \<open>
  C8, on the code. \<open>heartbeatOn\<close> stores the handle of the timer it starts over the
  handle the connection holds, without cancelling the timer of that handle, and
  \<open>parseRequest\<close> hands every CONNECT frame to \<open>CONNECT\<close>. After connection \<open>0\<close> has
  sent two CONNECT frames, two health-check timers run for it and it holds the handle of
  the second. Tearing the connection down twice gives the state of tearing it down once,
  the subscription of its session is gone and it holds no handle, but the teardown has
  cancelled the second timer only: the first is still live, and a later tick of it calls
  \<open>close\<close> on the connection that was torn down.
\<close>

theorem teardown_leaves_overwritten_timer:
  "\<not> isl (CONNECT parse5000 same_name Map.empty 0 connect_frame subscribed_world)
   \<and> \<not> isl (CONNECT parse5000 same_name Map.empty 0 connect_frame once_connected)
   \<and> timers twice_connected
       = [(0, \<lparr>timerSocket = 0, timerInterval = 10000, timerServerSide = False\<rparr>),
          (1, \<lparr>timerSocket = 0, timerInterval = 10000, timerServerSide = False\<rparr>)]
   \<and> heartbeatClock (sockets twice_connected 0) = Some 1
   \<and> afterConnectionClose 0 (afterConnectionClose 0 twice_connected)
       = afterConnectionClose 0 twice_connected
   \<and> subscribes (afterConnectionClose 0 twice_connected)
       = [None, Some (subscription example_world 1 (js ''s2'') (js ''/topic/foo.*''))]
   \<and> heartbeatClock (sockets (afterConnectionClose 0 twice_connected) 0) = None
   \<and> timers (afterConnectionClose 0 twice_connected)
       = [(0, \<lparr>timerSocket = 0, timerInterval = 10000, timerServerSide = False\<rparr>)]
   \<and> closeCalls (sockets (afterConnectionClose 0 twice_connected) 0) = 0
   \<and> closeCalls (sockets (fire 0 ((afterConnectionClose 0 twice_connected)\<lparr>now := 30000\<rparr>)) 0) = 1"
proof -
  let ?t = "\<lparr>timerSocket = 0, timerInterval = 10000, timerServerSide = False\<rparr>"
  let ?w = "afterConnectionClose 0 twice_connected"
  have r1: "\<not> isl (CONNECT parse5000 same_name Map.empty 0 connect_frame subscribed_world)"
    by (simp add: subscribed_world_def CONNECT_eval)
  have r2: "\<not> isl (CONNECT parse5000 same_name Map.empty 0 connect_frame once_connected)"
    by (simp add: once_connected_def subscribed_world_def CONNECT_eval)
  have tm: "timers twice_connected = [(0, ?t), (1, ?t)]"
    by (simp add: twice_connected_def once_connected_def subscribed_world_def CONNECT_eval)
  have ck: "heartbeatClock (sockets twice_connected 0) = Some 1"
    by (simp add: twice_connected_def once_connected_def subscribed_world_def CONNECT_eval)
  have sb: "subscribes twice_connected
       = [Some (subscription example_world 0 (js ''s1'') (js ''/topic/foo.*'')),
          Some (subscription example_world 1 (js ''s2'') (js ''/topic/foo.*''))]"
    by (simp add: twice_connected_def once_connected_def subscribed_world_def CONNECT_eval)
  have sid: "sessionId (sockets twice_connected 0) = js ''A''"
    by (simp add: twice_connected_def once_connected_def subscribed_world_def CONNECT_eval)
  have st: "heartbeatTime (sockets twice_connected 0) = 10000"
    "closeCalls (sockets twice_connected 0) = 0"
    "heartbeatErrorMargin (conf twice_connected) = 1000"
    by (simp_all add: twice_connected_def once_connected_def subscribed_world_def CONNECT_eval)
  have s1: "subscribes ?w = [None, Some (subscription example_world 1 (js ''s2'') (js ''/topic/foo.*''))]"
    by (simp add: afterConnectionClose_def sb sid example_defs js_def)
  have c1: "heartbeatClock (sockets ?w 0) = None"
    by (simp add: afterConnectionClose_def)
  have t1: "timers ?w = [(0, ?t)]"
    by (simp add: afterConnectionClose_def heartbeatOff_timers tm ck)
  have f1: "heartbeatTime (sockets ?w 0) = 10000" "closeCalls (sockets ?w 0) = 0"
    "heartbeatErrorMargin (conf ?w) = 1000"
    using st ck by (simp_all add: afterConnectionClose_def heartbeat_defs update_socket_def)
  have tick: "closeCalls (sockets (fire 0 (?w\<lparr>now := 30000\<rparr>)) 0) = 1"
    by (simp add: fire_def t1 f1 health_tick_def socket_close_def update_socket_def Let_def)
  from r1 r2 tm ck afterConnectionClose_idem [of 0 twice_connected] s1 c1 t1 f1(2) tick
  show ?thesis by (intro conjI)
qed

subsection \<open>Heartbeat\<close>

text \<open>
  C4, as stated, fails: a passing health check does not advance the stored time by the
  elapsed amount. With the time stored at 10000 and the clock at 10500 the elapsed amount
  is 500; advanced by it the stored time would be 10500, and the check leaves 9500.
\<close>

theorem health_check_counterexample:
  "heartbeatTime (sockets (connected_world\<lparr>now := 10500\<rparr>) 0) = 10000
   \<and> now (connected_world\<lparr>now := 10500\<rparr>) = 10500
   \<and> closeCalls (sockets (fire 0 (connected_world\<lparr>now := 10500\<rparr>)) 0) = 0
   \<and> heartbeatTime (sockets (fire 0 (connected_world\<lparr>now := 10500\<rparr>)) 0) = 9500"
  by (simp add: example_defs heartbeat_defs fire_def health_tick_def)

text \<open>
  C4, amended. On a tick of the client-side timer, with \<open>diff\<close> the clock minus the
  stored time: when \<open>diff\<close> exceeds the interval plus the error margin the tick calls
  \<open>close\<close> on the connection and does nothing else; otherwise the connection is not
  closed and the stored time is moved back by exactly \<open>diff\<close>, so it equals the clock
  only when \<open>diff\<close> is zero. The timer stays live in both cases.
\<close>

theorem health_check_tick:
  assumes "map_of (timers w) h
             = Some \<lparr>timerSocket = socket, timerInterval = interval, timerServerSide = False\<rparr>"
  shows "fire h w =
           (if now w - heartbeatTime (sockets w socket) > interval + heartbeatErrorMargin (conf w)
            then socket_close socket w
            else update_socket socket
                   (\<lambda>s. s\<lparr>heartbeatTime :=
                            heartbeatTime s - (now w - heartbeatTime (sockets w socket))\<rparr>) w)
         \<and> closeCalls (sockets (fire h w) socket) =
             (if now w - heartbeatTime (sockets w socket) > interval + heartbeatErrorMargin (conf w)
              then closeCalls (sockets w socket) + 1 else closeCalls (sockets w socket))
         \<and> heartbeatTime (sockets (fire h w) socket) =
             (if now w - heartbeatTime (sockets w socket) > interval + heartbeatErrorMargin (conf w)
              then heartbeatTime (sockets w socket)
              else heartbeatTime (sockets w socket) - (now w - heartbeatTime (sockets w socket)))
         \<and> timers (fire h w) = timers w"
  using assms
  by (simp add: fire_def health_tick_def socket_close_def update_socket_def Let_def)

theorem health_check_tick_witness:
  "map_of (timers connected_world) 0
     = Some \<lparr>timerSocket = 0, timerInterval = 10000, timerServerSide = False\<rparr>
   \<and> heartbeatTime (sockets connected_world 0) = 10000
   \<and> heartbeatErrorMargin (conf connected_world) = 1000
   \<and> closeCalls (sockets (fire 0 (connected_world\<lparr>now := 10500\<rparr>)) 0) = 0
   \<and> heartbeatTime (sockets (fire 0 (connected_world\<lparr>now := 10500\<rparr>)) 0) = 9500
   \<and> closeCalls (sockets (fire 0 (connected_world\<lparr>now := 30000\<rparr>)) 0) = 1
   \<and> heartbeatTime (sockets (fire 0 (connected_world\<lparr>now := 30000\<rparr>)) 0) = 10000"
proof -
  have t: "map_of (timers connected_world) 0
     = Some \<lparr>timerSocket = 0, timerInterval = 10000, timerServerSide = False\<rparr>"
    by (simp add: example_defs heartbeat_defs)
  have b: "heartbeatTime (sockets connected_world 0) = 10000"
    by (simp add: example_defs heartbeat_defs)
  have m: "heartbeatErrorMargin (conf connected_world) = 1000"
    by (simp add: example_defs heartbeat_defs)
  have c: "closeCalls (sockets connected_world 0) = 0"
    by (simp add: example_defs heartbeat_defs)
  from health_check_tick [of "connected_world\<lparr>now := 10500\<rparr>" 0 0 10000]
       health_check_tick [of "connected_world\<lparr>now := 30000\<rparr>" 0 0 10000] t b m c
  show ?thesis by (simp add: update_socket_def socket_close_def)
qed

subsection \<open>CONNECT\<close>

lemma CONNECT_negotiated:
  assumes "hget (headers frame) (js ''heart-beat'') = VString raw" and "raw \<noteq> []"
    and "map parseInt (split [COMMA] raw) = [Some cx, Some cy]"
    and "heartbeat (conf w) = (sx, sy)"
  shows "CONNECT parseInt toLowerCase middleware socket frame w =
     Inr (let (mode, announce) = negotiate (cx, cy) (sx, sy);
              w1 = adopt socket mode w;
              (accepted, w2) = onClientConnected toLowerCase middleware socket
                                 ([Some cx, Some cy], headers frame) w1
          in if truthy accepted
             then ServerFrame_CONNECTED socket
                    (number_to_string (fst announce) @ [COMMA] @ number_to_string (snd announce))
                    (serverName (conf w2)) w2
             else ServerFrame_ERROR socket (js ''CONNECTION ERROR'')
                    (Some (js ''CONNECTION ERROR'')) w2)"
  using assms
  by (simp add: CONNECT_def negotiate_def adopt_def js_nth_def gt0_def Let_def split: prod.splits)

lemma adopt_timers:
  "timers (adopt socket mode w) =
     (case mode of
        Disabled \<Rightarrow> timers w
      | ClientDrives i \<Rightarrow>
          timers w @ [(nextHandle w,
                       \<lparr>timerSocket = socket, timerInterval = i, timerServerSide = False\<rparr>)]
      | ServerDrives i \<Rightarrow>
          timers w @ [(nextHandle w,
                       \<lparr>timerSocket = socket, timerInterval = i, timerServerSide = True\<rparr>)])"
  by (simp add: adopt_def heartbeat_defs split: heartbeat_mode.splits)

text \<open>
  C1. When the client proposes the heartbeat \<open>(cx, cy)\<close> and the server is configured
  with \<open>(sx, sy)\<close>, \<open>CONNECT\<close> adopts the mode, with the interval, that the three rules
  of the specification give, before it runs the connect chain; when the chain accepts, it
  sends the CONNECTED frame for the announced pair of those rules. Adopting a mode starts
  the one timer of that direction, or none when the heartbeat is disabled. The CONNECTED
  frame carries the announced pair in its \<open>heart-beat\<close> header.
\<close>

theorem connect_negotiation:
  assumes "hget (headers frame) (js ''heart-beat'') = VString raw" and "raw \<noteq> []"
    and "map parseInt (split [COMMA] raw) = [Some cx, Some cy]"
    and "heartbeat (conf w) = (sx, sy)"
  shows "CONNECT parseInt toLowerCase middleware socket frame w =
     Inr (let (mode, announce) = negotiate (cx, cy) (sx, sy);
              w1 = adopt socket mode w;
              (accepted, w2) = onClientConnected toLowerCase middleware socket
                                 ([Some cx, Some cy], headers frame) w1
          in if truthy accepted
             then ServerFrame_CONNECTED socket
                    (number_to_string (fst announce) @ [COMMA] @ number_to_string (snd announce))
                    (serverName (conf w2)) w2
             else ServerFrame_ERROR socket (js ''CONNECTION ERROR'')
                    (Some (js ''CONNECTION ERROR'')) w2)
     \<and> timers (adopt socket (fst (negotiate (cx, cy) (sx, sy))) w) =
         (case fst (negotiate (cx, cy) (sx, sy)) of
            Disabled \<Rightarrow> timers w
          | ClientDrives i \<Rightarrow>
              timers w @ [(nextHandle w,
                           \<lparr>timerSocket = socket, timerInterval = i, timerServerSide = False\<rparr>)]
          | ServerDrives i \<Rightarrow>
              timers w @ [(nextHandle w,
                           \<lparr>timerSocket = socket, timerInterval = i, timerServerSide = True\<rparr>)])
     \<and> sent (sockets (ServerFrame_CONNECTED socket announced name w') socket) =
         sent (sockets w' socket)
         @ [toStringOrBuffer
              \<lparr>command = Some (js ''CONNECTED''),
               headers = [(js ''session'', VString (sessionId (sockets w' socket))),
                          (js ''server'', VString name),
                          (js ''heart-beat'', VString announced),
                          (js ''content-length'', VNumber 0),
                          (js ''version'', VString (js ''1.1''))],
               body = VUndefined\<rparr>]"
proof -
  have frame: "sent (sockets (ServerFrame_CONNECTED socket announced name w') socket) =
         sent (sockets w' socket)
         @ [toStringOrBuffer
              \<lparr>command = Some (js ''CONNECTED''),
               headers = [(js ''session'', VString (sessionId (sockets w' socket))),
                          (js ''server'', VString name),
                          (js ''heart-beat'', VString announced),
                          (js ''content-length'', VNumber 0),
                          (js ''version'', VString (js ''1.1''))],
               body = VUndefined\<rparr>]"
    by (simp add: ServerFrame_CONNECTED_def sendCommand_def sendFrame_def socket_send_def
        update_socket_def Let_def)
  show ?thesis
    by (intro conjI CONNECT_negotiated [OF assms] adopt_timers frame)
qed

theorem connect_negotiation_witness:
  "hget (headers connect_frame) (js ''heart-beat'') = VString (js ''5000,5000'')
   \<and> map parse5000 (split [COMMA] (js ''5000,5000'')) = [Some 5000, Some 5000]
   \<and> heartbeat (conf example_world) = (0, 10000)
   \<and> negotiate (5000, 5000) (0, 10000) = (ClientDrives 10000, (0, 10000))
   \<and> \<not> isl (CONNECT parse5000 same_name Map.empty 0 connect_frame example_world)
   \<and> timers (projr (CONNECT parse5000 same_name Map.empty 0 connect_frame example_world))
       = [(0, \<lparr>timerSocket = 0, timerInterval = 10000, timerServerSide = False\<rparr>)]
   \<and> sent (sockets (projr (CONNECT parse5000 same_name Map.empty 0 connect_frame example_world)) 0)
       = [js ''CONNECTED\<newline>session:A\<newline>server:STOMP-JS/1.0\<newline>heart-beat:0,10000\<newline>content-length:0\<newline>version:1.1\<newline>\<newline>''
          @ [NUL]]"
proof -
  have h: "hget (headers connect_frame) (js ''heart-beat'') = VString (js ''5000,5000'')"
    by (simp add: connect_frame_def hget_def js_def)
  have ne: "js ''5000,5000'' \<noteq> []"
    by (simp add: js_def)
  have p: "map parse5000 (split [COMMA] (js ''5000,5000'')) = [Some 5000, Some 5000]"
    by (simp add: parse5000_def split_def js_chars)
  have c: "heartbeat (conf example_world) = (0, 10000)"
    by (simp add: example_world_def)
  have n: "negotiate (5000, 5000) (0, 10000) = (ClientDrives 10000, (0, 10000))"
    by (simp add: negotiate_def)
  have d: "number_to_string 0 = js ''0''" "number_to_string 10000 = js ''10000''"
    by (simp_all add: number_to_string_def digits.simps js_def)
  note r = connect_negotiation [OF h ne p c, of same_name Map.empty 0, THEN conjunct1]
  have i: "\<not> isl (CONNECT parse5000 same_name Map.empty 0 connect_frame example_world)"
    by (simp add: r case_prod_beta Let_def)
  have t: "timers (projr (CONNECT parse5000 same_name Map.empty 0 connect_frame example_world))
       = [(0, \<lparr>timerSocket = 0, timerInterval = 10000, timerServerSide = False\<rparr>)]"
    unfolding r by (simp add: n adopt_def connect_defs example_defs heartbeat_defs Let_def)
  have s: "sent (sockets (projr (CONNECT parse5000 same_name Map.empty 0 connect_frame example_world)) 0)
       = [js ''CONNECTED\<newline>session:A\<newline>server:STOMP-JS/1.0\<newline>heart-beat:0,10000\<newline>content-length:0\<newline>version:1.1\<newline>\<newline>''
          @ [NUL]]"
    unfolding r
    by (simp add: n d adopt_def connect_defs example_defs heartbeat_defs toStringOrBuffer_def
        for_in_def array_index_def is_digit_def js_chars Let_def)
  from h p c n i t s show ?thesis by simp
qed

lemma heartbeatOn_clock:
  "heartbeatClock (sockets (heartbeatOn socket i side w) socket) = Some (nextHandle w)"
  by (simp add: heartbeat_defs)

lemma heartbeatOn_timers:
  "timers (heartbeatOn socket i side w) =
     timers w @ [(nextHandle w, \<lparr>timerSocket = socket, timerInterval = i, timerServerSide = side\<rparr>)]"
  by (simp add: heartbeat_defs)

lemma heartbeatOn_live:
  assumes "\<forall>(h, t) \<in> set (timers w). h \<noteq> nextHandle w"
  shows "map_of (timers (heartbeatOn socket i side w)) (nextHandle w)
           = Some \<lparr>timerSocket = socket, timerInterval = i, timerServerSide = side\<rparr>"
proof -
  have "map_of (timers w) (nextHandle w) = None"
    using assms by (force simp: map_of_eq_None_iff)
  then show ?thesis
    by (simp add: heartbeatOn_timers map_add_def)
qed

lemma ServerFrame_ERROR_fields:
  "timers (ServerFrame_ERROR socket m d w) = timers w"
  "heartbeatClock (sockets (ServerFrame_ERROR socket m d w) n) = heartbeatClock (sockets w n)"
  "conf (ServerFrame_ERROR socket m d w) = conf w"
  "heartbeatTime (sockets (ServerFrame_ERROR socket m d w) n) = heartbeatTime (sockets w n)"
  "closeCalls (sockets (ServerFrame_ERROR socket m d w) n) = closeCalls (sockets w n)"
  "readyState (sockets (ServerFrame_ERROR socket m d w) n) = readyState (sockets w n)"
  by (simp_all add: ServerFrame_ERROR_def sendCommand_def sendFrame_def socket_send_def
      update_socket_def Let_def)

lemma ServerFrame_ERROR_sent:
  "sent (sockets (ServerFrame_ERROR socket (js ''CONNECTION ERROR'')
                    (Some (js ''CONNECTION ERROR'')) w) socket) =
     sent (sockets w socket)
     @ [toStringOrBuffer
          \<lparr>command = Some (js ''ERROR''),
           headers = [(js ''message'', VString (js ''CONNECTION ERROR'')),
                      (js ''content-type'', VString (js ''text/plain'')),
                      (js ''content-length'', VNumber 16)],
           body = VString (js ''CONNECTION ERROR'')\<rparr>]"
proof -
  have len: "length (js ''CONNECTION ERROR'') = 16" "js ''CONNECTION ERROR'' \<noteq> []"
    by (simp_all add: js_def)
  show ?thesis
    by (simp add: ServerFrame_ERROR_def sendCommand_def sendFrame_def socket_send_def
        update_socket_def len Let_def)
qed

lemma negotiate_modes:
  "negotiate (cx, cy) (sx, sy) = (mode, announce) \<Longrightarrow>
   (case mode of
      Disabled \<Rightarrow> True
    | ClientDrives i \<Rightarrow> i = max cx sy \<and> cx > 0 \<and> sy > 0
    | ServerDrives i \<Rightarrow> i = max cy sx \<and> cy > 0 \<and> sx > 0)"
  by (auto simp: negotiate_def split: if_splits)

text \<open>
  C10. \<open>CONNECT\<close> starts the heartbeat timer before the connect chain runs. Whichever
  mode the rules select, when the chain rejects without touching the timers or the timer
  handle of the connection, \<open>CONNECT\<close> sends an ERROR frame and what the negotiation
  started stays. In the client-side mode the connection holds the handle of a live
  health-check timer with the negotiated interval, and a later tick of that timer that
  finds the silence longer than the interval plus the error margin calls \<open>close\<close> on the
  connection. In the server-side mode the connection holds the handle of a live ping timer
  with the negotiated interval, and a later tick of it sends a line feed to the connection
  when that is open. When the heartbeat is disabled no timer is started.
\<close>

theorem rejected_connect_keeps_timer:
  assumes "hget (headers frame) (js ''heart-beat'') = VString raw" and "raw \<noteq> []"
    and "map parseInt (split [COMMA] raw) = [Some cx, Some cy]"
    and "heartbeat (conf w) = (sx, sy)"
    and "negotiate (cx, cy) (sx, sy) = (mode, announce)"
    and "\<forall>(h, t) \<in> set (timers w). h \<noteq> nextHandle w"
    and "onClientConnected toLowerCase middleware socket ([Some cx, Some cy], headers frame)
           (adopt socket mode w) = (accepted, w2)"
    and "\<not> truthy accepted"
    and "timers w2 = timers (adopt socket mode w)"
    and "heartbeatClock (sockets w2 socket) = heartbeatClock (sockets (adopt socket mode w) socket)"
  shows "CONNECT parseInt toLowerCase middleware socket frame w =
           Inr (ServerFrame_ERROR socket (js ''CONNECTION ERROR'')
                  (Some (js ''CONNECTION ERROR'')) w2)
         \<and> (let w3 = ServerFrame_ERROR socket (js ''CONNECTION ERROR'')
                        (Some (js ''CONNECTION ERROR'')) w2
            in sent (sockets w3 socket) =
                 sent (sockets w2 socket)
                 @ [toStringOrBuffer
                      \<lparr>command = Some (js ''ERROR''),
                       headers = [(js ''message'', VString (js ''CONNECTION ERROR'')),
                                  (js ''content-type'', VString (js ''text/plain'')),
                                  (js ''content-length'', VNumber 16)],
                       body = VString (js ''CONNECTION ERROR'')\<rparr>]
               \<and> (case mode of
                    Disabled \<Rightarrow>
                      timers w3 = timers w
                      \<and> heartbeatClock (sockets w3 socket) = heartbeatClock (sockets w socket)
                  | ClientDrives i \<Rightarrow>
                      i = max cx sy
                      \<and> heartbeatClock (sockets w3 socket) = Some (nextHandle w)
                      \<and> map_of (timers w3) (nextHandle w)
                          = Some \<lparr>timerSocket = socket, timerInterval = i,
                                  timerServerSide = False\<rparr>
                      \<and> closeCalls (sockets (fire (nextHandle w) (w3\<lparr>now := t\<rparr>)) socket)
                          = (if t - heartbeatTime (sockets w3 socket)
                                  > i + heartbeatErrorMargin (conf w3)
                             then closeCalls (sockets w3 socket) + 1
                             else closeCalls (sockets w3 socket))
                  | ServerDrives i \<Rightarrow>
                      i = max cy sx
                      \<and> heartbeatClock (sockets w3 socket) = Some (nextHandle w)
                      \<and> map_of (timers w3) (nextHandle w)
                          = Some \<lparr>timerSocket = socket, timerInterval = i,
                                  timerServerSide = True\<rparr>
                      \<and> sent (sockets (fire (nextHandle w) (w3\<lparr>now := t\<rparr>)) socket)
                          = (if readyState (sockets w3 socket) = 1
                             then sent (sockets w3 socket) @ [[LF]]
                             else sent (sockets w3 socket))))"
proof -
  let ?w3 = "ServerFrame_ERROR socket (js ''CONNECTION ERROR'') (Some (js ''CONNECTION ERROR'')) w2"
  have run: "CONNECT parseInt toLowerCase middleware socket frame w = Inr ?w3"
    using CONNECT_negotiated [OF assms(1-4), of toLowerCase middleware socket] assms(7,8)
    by (simp add: assms(5))
  have out: "sent (sockets ?w3 socket) =
                 sent (sockets w2 socket)
                 @ [toStringOrBuffer
                      \<lparr>command = Some (js ''ERROR''),
                       headers = [(js ''message'', VString (js ''CONNECTION ERROR'')),
                                  (js ''content-type'', VString (js ''text/plain'')),
                                  (js ''content-length'', VNumber 16)],
                       body = VString (js ''CONNECTION ERROR'')\<rparr>]"
    by (rule ServerFrame_ERROR_sent)
  have tm: "timers ?w3 = timers (adopt socket mode w)"
    by (simp add: ServerFrame_ERROR_fields assms(9))
  have ck: "heartbeatClock (sockets ?w3 socket) = heartbeatClock (sockets (adopt socket mode w) socket)"
    by (simp add: ServerFrame_ERROR_fields assms(10))
  have modes: "case mode of
      Disabled \<Rightarrow> True
    | ClientDrives i \<Rightarrow> i = max cx sy \<and> cx > 0 \<and> sy > 0
    | ServerDrives i \<Rightarrow> i = max cy sx \<and> cy > 0 \<and> sx > 0"
    by (rule negotiate_modes [OF assms(5)])
  have timer: "case mode of
                    Disabled \<Rightarrow>
                      timers ?w3 = timers w
                      \<and> heartbeatClock (sockets ?w3 socket) = heartbeatClock (sockets w socket)
                  | ClientDrives i \<Rightarrow>
                      i = max cx sy
                      \<and> heartbeatClock (sockets ?w3 socket) = Some (nextHandle w)
                      \<and> map_of (timers ?w3) (nextHandle w)
                          = Some \<lparr>timerSocket = socket, timerInterval = i,
                                  timerServerSide = False\<rparr>
                      \<and> closeCalls (sockets (fire (nextHandle w) (?w3\<lparr>now := t\<rparr>)) socket)
                          = (if t - heartbeatTime (sockets ?w3 socket)
                                  > i + heartbeatErrorMargin (conf ?w3)
                             then closeCalls (sockets ?w3 socket) + 1
                             else closeCalls (sockets ?w3 socket))
                  | ServerDrives i \<Rightarrow>
                      i = max cy sx
                      \<and> heartbeatClock (sockets ?w3 socket) = Some (nextHandle w)
                      \<and> map_of (timers ?w3) (nextHandle w)
                          = Some \<lparr>timerSocket = socket, timerInterval = i,
                                  timerServerSide = True\<rparr>
                      \<and> sent (sockets (fire (nextHandle w) (?w3\<lparr>now := t\<rparr>)) socket)
                          = (if readyState (sockets ?w3 socket) = 1
                             then sent (sockets ?w3 socket) @ [[LF]]
                             else sent (sockets ?w3 socket))"
  proof (cases mode)
    case Disabled
    with tm ck show ?thesis by (simp add: adopt_def)
  next
    case (ClientDrives i)
    let ?t = "\<lparr>timerSocket = socket, timerInterval = i, timerServerSide = False\<rparr>"
    from modes ClientDrives have i: "i = max cx sy" by simp
    have k: "heartbeatClock (sockets ?w3 socket) = Some (nextHandle w)"
      using ck ClientDrives by (simp add: adopt_def heartbeatOn_clock)
    have l: "map_of (timers ?w3) (nextHandle w) = Some ?t"
      using tm ClientDrives heartbeatOn_live [OF assms(6)] by (simp add: adopt_def)
    then have l': "map_of (timers (?w3\<lparr>now := t\<rparr>)) (nextHandle w) = Some ?t"
      by simp
    have tick: "closeCalls (sockets (fire (nextHandle w) (?w3\<lparr>now := t\<rparr>)) socket)
                  = (if t - heartbeatTime (sockets ?w3 socket) > i + heartbeatErrorMargin (conf ?w3)
                     then closeCalls (sockets ?w3 socket) + 1
                     else closeCalls (sockets ?w3 socket))"
      using l' by (simp add: fire_def health_tick_def socket_close_def update_socket_def Let_def)
    from ClientDrives i k l tick show ?thesis by simp
  next
    case (ServerDrives i)
    let ?t = "\<lparr>timerSocket = socket, timerInterval = i, timerServerSide = True\<rparr>"
    from modes ServerDrives have i: "i = max cy sx" by simp
    have k: "heartbeatClock (sockets ?w3 socket) = Some (nextHandle w)"
      using ck ServerDrives by (simp add: adopt_def heartbeatOn_clock)
    have l: "map_of (timers ?w3) (nextHandle w) = Some ?t"
      using tm ServerDrives heartbeatOn_live [OF assms(6)] by (simp add: adopt_def)
    then have l': "map_of (timers (?w3\<lparr>now := t\<rparr>)) (nextHandle w) = Some ?t"
      by simp
    have tick: "sent (sockets (fire (nextHandle w) (?w3\<lparr>now := t\<rparr>)) socket)
                  = (if readyState (sockets ?w3 socket) = 1
                     then sent (sockets ?w3 socket) @ [[LF]]
                     else sent (sockets ?w3 socket))"
      using l' by (simp add: fire_def ping_tick_def socket_send_def update_socket_def)
    from ServerDrives i k l tick show ?thesis by simp
  qed
  from run out timer show ?thesis
    unfolding Let_def by (intro conjI)
qed

theorem rejected_connect_keeps_timer_witness:
  "\<not> isl (CONNECT parse5000 same_name
            (addMiddleware same_name (js ''connect'') rejecting_interceptor Map.empty)
            0 connect_frame example_world)
   \<and> sent (sockets (projr (CONNECT parse5000 same_name
            (addMiddleware same_name (js ''connect'') rejecting_interceptor Map.empty)
            0 connect_frame example_world)) 0)
       = [js ''ERROR\<newline>message:CONNECTION ERROR\<newline>content-type:text/plain\<newline>content-length:16\<newline>\<newline>CONNECTION ERROR''
          @ [NUL]]
   \<and> heartbeatClock (sockets (projr (CONNECT parse5000 same_name
            (addMiddleware same_name (js ''connect'') rejecting_interceptor Map.empty)
            0 connect_frame example_world)) 0) = Some 0
   \<and> timers (projr (CONNECT parse5000 same_name
            (addMiddleware same_name (js ''connect'') rejecting_interceptor Map.empty)
            0 connect_frame example_world))
       = [(0, \<lparr>timerSocket = 0, timerInterval = 10000, timerServerSide = False\<rparr>)]
   \<and> closeCalls (sockets (fire 0 (projr (CONNECT parse5000 same_name
            (addMiddleware same_name (js ''connect'') rejecting_interceptor Map.empty)
            0 connect_frame example_world)\<lparr>now := 30000\<rparr>)) 0) = 1
   \<and> \<not> isl (CONNECT parse_0_5000 same_name
            (addMiddleware same_name (js ''connect'') rejecting_interceptor Map.empty)
            0 listening_frame pinging_world)
   \<and> heartbeatClock (sockets (projr (CONNECT parse_0_5000 same_name
            (addMiddleware same_name (js ''connect'') rejecting_interceptor Map.empty)
            0 listening_frame pinging_world)) 0) = Some 0
   \<and> timers (projr (CONNECT parse_0_5000 same_name
            (addMiddleware same_name (js ''connect'') rejecting_interceptor Map.empty)
            0 listening_frame pinging_world))
       = [(0, \<lparr>timerSocket = 0, timerInterval = 20000, timerServerSide = True\<rparr>)]
   \<and> sent (sockets (fire 0 (projr (CONNECT parse_0_5000 same_name
            (addMiddleware same_name (js ''connect'') rejecting_interceptor Map.empty)
            0 listening_frame pinging_world)\<lparr>now := 20000\<rparr>)) 0)
       = [js ''ERROR\<newline>message:CONNECTION ERROR\<newline>content-type:text/plain\<newline>content-length:16\<newline>\<newline>CONNECTION ERROR''
          @ [NUL],
          [LF]]"
proof -
  let ?mw = "addMiddleware same_name (js ''connect'') rejecting_interceptor Map.empty"
  let ?w1 = "heartbeatOn 0 10000 False example_world"
  let ?w3 = "ServerFrame_ERROR 0 (js ''CONNECTION ERROR'') (Some (js ''CONNECTION ERROR'')) ?w1"
  let ?v1 = "heartbeatOn 0 20000 True pinging_world"
  let ?v3 = "ServerFrame_ERROR 0 (js ''CONNECTION ERROR'') (Some (js ''CONNECTION ERROR'')) ?v1"
  have nt: "\<not> truthy (VBool False)"
    by simp
  have h: "hget (headers connect_frame) (js ''heart-beat'') = VString (js ''5000,5000'')"
    by (simp add: connect_frame_def hget_def js_def)
  have ne: "js ''5000,5000'' \<noteq> []"
    by (simp add: js_def)
  have p: "map parse5000 (split [COMMA] (js ''5000,5000'')) = [Some 5000, Some 5000]"
    by (simp add: parse5000_def split_def js_chars)
  have c: "heartbeat (conf example_world) = (0, 10000)"
    by (simp add: example_world_def)
  have n: "negotiate (5000, 5000) (0, 10000) = (ClientDrives 10000, (0, 10000))"
    by (simp add: negotiate_def)
  have f: "\<forall>(h, t) \<in> set (timers example_world). h \<noteq> nextHandle example_world"
    by (simp add: example_world_def)
  have a: "adopt 0 (ClientDrives 10000) example_world = ?w1"
    by (simp add: adopt_def)
  have ch: "onClientConnected same_name ?mw 0 ([Some 5000, Some 5000], headers connect_frame)
              (adopt 0 (ClientDrives 10000) example_world)
              = (VBool False, adopt 0 (ClientDrives 10000) example_world)"
    by (simp add: onClientConnected_def withMiddleware_def addMiddleware_def
        rejecting_interceptor_def)
  note r = rejected_connect_keeps_timer [OF h ne p c n f ch nt refl refl, of 30000, unfolded a, simplified Let_def]
  have run: "CONNECT parse5000 same_name ?mw 0 connect_frame example_world = Inr ?w3"
    using r by simp
  have nh: "nextHandle example_world = 0"
    by (simp add: example_world_def)
  have snt: "sent (sockets ?w3 0) =
       [js ''ERROR\<newline>message:CONNECTION ERROR\<newline>content-type:text/plain\<newline>content-length:16\<newline>\<newline>CONNECTION ERROR''
          @ [NUL]]"
    by (simp add: ServerFrame_ERROR_def sendCommand_def sendFrame_def socket_send_def
        example_defs heartbeat_defs toStringOrBuffer_def for_in_def array_index_def is_digit_def
        number_to_string_def digits.simps js_chars Let_def)
  have tm: "timers ?w3 = [(0, \<lparr>timerSocket = 0, timerInterval = 10000, timerServerSide = False\<rparr>)]"
    by (simp add: ServerFrame_ERROR_def sendCommand_def sendFrame_def socket_send_def
        example_defs heartbeat_defs Let_def)
  have st: "heartbeatTime (sockets ?w3 0) = 10000" "heartbeatErrorMargin (conf ?w3) = 1000"
    "closeCalls (sockets ?w3 0) = 0"
    by (simp_all add: ServerFrame_ERROR_def sendCommand_def sendFrame_def socket_send_def
        example_defs heartbeat_defs Let_def)
  have h': "hget (headers listening_frame) (js ''heart-beat'') = VString (js ''0,5000'')"
    by (simp add: listening_frame_def hget_def js_def)
  have ne': "js ''0,5000'' \<noteq> []"
    by (simp add: js_def)
  have p': "map parse_0_5000 (split [COMMA] (js ''0,5000'')) = [Some 0, Some 5000]"
    by (simp add: parse_0_5000_def split_def js_chars)
  have c': "heartbeat (conf pinging_world) = (20000, 0)"
    by (simp add: pinging_world_def)
  have n': "negotiate (0, 5000) (20000, 0) = (ServerDrives 20000, (20000, 0))"
    by (simp add: negotiate_def)
  have f': "\<forall>(h, t) \<in> set (timers pinging_world). h \<noteq> nextHandle pinging_world"
    by (simp add: pinging_world_def example_world_def)
  have a': "adopt 0 (ServerDrives 20000) pinging_world = ?v1"
    by (simp add: adopt_def)
  have ch': "onClientConnected same_name ?mw 0 ([Some 0, Some 5000], headers listening_frame)
              (adopt 0 (ServerDrives 20000) pinging_world)
              = (VBool False, adopt 0 (ServerDrives 20000) pinging_world)"
    by (simp add: onClientConnected_def withMiddleware_def addMiddleware_def
        rejecting_interceptor_def)
  note r' = rejected_connect_keeps_timer [OF h' ne' p' c' n' f' ch' nt refl refl, of 20000, unfolded a', simplified Let_def]
  have run': "CONNECT parse_0_5000 same_name ?mw 0 listening_frame pinging_world = Inr ?v3"
    using r' by simp
  have nh': "nextHandle pinging_world = 0"
    by (simp add: pinging_world_def example_world_def)
  have snt': "sent (sockets ?v3 0) =
       [js ''ERROR\<newline>message:CONNECTION ERROR\<newline>content-type:text/plain\<newline>content-length:16\<newline>\<newline>CONNECTION ERROR''
          @ [NUL]]"
    by (simp add: ServerFrame_ERROR_def sendCommand_def sendFrame_def socket_send_def
        pinging_world_def example_defs heartbeat_defs toStringOrBuffer_def for_in_def
        array_index_def is_digit_def number_to_string_def digits.simps js_chars Let_def)
  have tm': "timers ?v3 = [(0, \<lparr>timerSocket = 0, timerInterval = 20000, timerServerSide = True\<rparr>)]"
    by (simp add: ServerFrame_ERROR_def sendCommand_def sendFrame_def socket_send_def
        pinging_world_def example_defs heartbeat_defs Let_def)
  have st': "readyState (sockets ?v3 0) = 1"
    by (simp add: ServerFrame_ERROR_def sendCommand_def sendFrame_def socket_send_def
        pinging_world_def example_defs heartbeat_defs Let_def)
  from r run nh snt tm st have one:
    "\<not> isl (CONNECT parse5000 same_name ?mw 0 connect_frame example_world)"
    "sent (sockets (projr (CONNECT parse5000 same_name ?mw 0 connect_frame example_world)) 0)
       = [js ''ERROR\<newline>message:CONNECTION ERROR\<newline>content-type:text/plain\<newline>content-length:16\<newline>\<newline>CONNECTION ERROR''
          @ [NUL]]"
    "heartbeatClock (sockets (projr (CONNECT parse5000 same_name ?mw 0 connect_frame example_world)) 0) = Some 0"
    "timers (projr (CONNECT parse5000 same_name ?mw 0 connect_frame example_world))
       = [(0, \<lparr>timerSocket = 0, timerInterval = 10000, timerServerSide = False\<rparr>)]"
    "closeCalls (sockets (fire 0 (projr (CONNECT parse5000 same_name ?mw 0 connect_frame
        example_world)\<lparr>now := 30000\<rparr>)) 0) = 1"
    by simp_all
  from r' run' nh' snt' tm' st' have two:
    "\<not> isl (CONNECT parse_0_5000 same_name ?mw 0 listening_frame pinging_world)"
    "heartbeatClock (sockets (projr (CONNECT parse_0_5000 same_name ?mw 0 listening_frame
        pinging_world)) 0) = Some 0"
    "timers (projr (CONNECT parse_0_5000 same_name ?mw 0 listening_frame pinging_world))
       = [(0, \<lparr>timerSocket = 0, timerInterval = 20000, timerServerSide = True\<rparr>)]"
    "sent (sockets (fire 0 (projr (CONNECT parse_0_5000 same_name ?mw 0 listening_frame
        pinging_world)\<lparr>now := 20000\<rparr>)) 0)
       = [js ''ERROR\<newline>message:CONNECTION ERROR\<newline>content-type:text/plain\<newline>content-length:16\<newline>\<newline>CONNECTION ERROR''
          @ [NUL],
          [LF]]"
    by simp_all
  from one two show ?thesis
    by (intro conjI)
qed

subsection \<open>Publishing\<close>

lemma Frame_copy [simp]:
  "\<lparr>command = command f, headers = headers f, body = body f\<rparr> = (f :: Frame)"
  by (cases f) simp

lemma sendFrame_fields [simp]:
  "sessionId (sockets (sendFrame n f w) m) = sessionId (sockets w m)"
  "subscribes (sendFrame n f w) = subscribes w"
  "sent (sockets (sendFrame n f w) m) =
     (if m = n then sent (sockets w m) @ [toStringOrBuffer f] else sent (sockets w m))"
  "emitted (sendFrame n f w) = emitted w"
  by (simp_all add: sendFrame_def socket_send_def update_socket_def)

lemma emit_fields [simp]:
  "sockets (emit name args w) = sockets w"
  "subscribes (emit name args w) = subscribes w"
  by (simp_all add: emit_def)

lemma sessionId_of_sendFrame [simp]: "sessionId_of (sendFrame n f w) c = sessionId_of w c"
  by (simp add: sessionId_of_def split: client.splits)

lemma sessionId_of_emit [simp]: "sessionId_of (emit name args w) c = sessionId_of w c"
  by (simp add: sessionId_of_def split: client.splits)

lemma loop_foreign:
  "sendToSubscriptions_loop socket dest subs frame w =
   sendToSubscriptions_loop socket dest
     (foreign_subscriptions (sessionId_of w socket) subs) frame w"
proof (induction socket dest subs frame w rule: sendToSubscriptions_loop.induct)
  case (1 socket dest frame w)
  show ?case by (simp add: foreign_subscriptions_def)
next
  case (2 socket dest subs frame w)
  then show ?case by (simp add: foreign_subscriptions_def)
next
  case (3 socket dest sub subs frame w)
  show ?case
  proof (cases "sessionId_of w socket = sessionId' sub")
    case True
    with 3(1) show ?thesis by (simp add: foreign_subscriptions_def)
  next
    case False
    show ?thesis
    proof (cases "checkSubMatchDest sub (dest, frame)")
      case True
      with False 3(2) show ?thesis
        by (auto simp: foreign_subscriptions_def Let_def split: option.splits)
    next
      case miss: False
      with False 3(3) show ?thesis by (auto simp: foreign_subscriptions_def)
    qed
  qed
qed

lemma loop_all_own:
  "\<forall>sub. Some sub \<in> set subs \<longrightarrow> sessionId' sub = sessionId_of w socket \<Longrightarrow>
   sendToSubscriptions_loop socket dest subs frame w = (frame, w)"
proof (induction socket dest subs frame w rule: sendToSubscriptions_loop.induct)
  case (1 socket dest frame w)
  show ?case by simp
next
  case (2 socket dest subs frame w)
  have "\<forall>sub. Some sub \<in> set subs \<longrightarrow> sessionId' sub = sessionId_of w socket"
    using "2.prems" by (metis list.set_intros(2))
  from "2.IH" [OF this] show ?case by simp
next
  case (3 socket dest sub subs frame w)
  have own: "sessionId_of w socket = sessionId' sub"
    using "3.prems" by (metis list.set_intros(1))
  have rest: "\<forall>sub. Some sub \<in> set subs \<longrightarrow> sessionId' sub = sessionId_of w socket"
    using "3.prems" by (metis list.set_intros(2))
  have "sendToSubscriptions_loop socket dest (Some sub # subs) frame w
          = sendToSubscriptions_loop socket dest subs frame w"
    using own by simp
  also have "\<dots> = (frame, w)"
    by (rule 3(1) [OF own rest])
  finally show ?case .
qed

lemma loop_own_outbox:
  "\<forall>sub m. Some sub \<in> set subs \<and> socket' sub = Some m
             \<longrightarrow> sessionId' sub = sessionId (sockets w m) \<Longrightarrow>
   sent (sockets (snd (sendToSubscriptions_loop (Conn n) dest subs frame w)) n)
     = sent (sockets w n)"
proof (induction "Conn n" dest subs frame w rule: sendToSubscriptions_loop.induct)
  case (1 dest frame w)
  show ?case by simp
next
  case (2 dest subs frame w)
  then show ?case by simp
next
  case (3 dest sub subs frame w)
  show ?case
  proof (cases "sessionId_of w (Conn n) = sessionId' sub")
    case True
    with 3(1) "3.prems" show ?thesis by simp
  next
    case False
    show ?thesis
    proof (cases "checkSubMatchDest sub (dest, frame)")
      case True
      have ne: "socket' sub \<noteq> Some n"
        using False "3.prems" by (auto simp: sessionId_of_def)
      from False True 3(2) "3.prems" ne show ?thesis
        by (auto simp: Let_def split: option.splits)
    next
      case miss: False
      with False 3(3) "3.prems" show ?thesis by simp
    qed
  qed
qed

text \<open>
  C6. The fan-out of a publication is the fan-out over the subscriptions of the other
  sessions: a subscription of the sender's session is passed over whatever its pattern.
  When every subscription belongs to the sender's session nothing is sent or emitted, and
  when every subscription that has a connection carries that connection's session, nothing
  is written to the sender's own connection.
\<close>

theorem sender_is_excluded:
  "sendToSubscriptions socket args w =
     sendToSubscriptions_loop socket (fst args)
       (foreign_subscriptions (sessionId_of w socket) (subscribes w)) (snd args) w
   \<and> ((\<forall>sub. Some sub \<in> set (subscribes w) \<longrightarrow> sessionId' sub = sessionId_of w socket)
        \<longrightarrow> sendToSubscriptions socket args w = (snd args, w))
   \<and> ((\<forall>sub m. Some sub \<in> set (subscribes w) \<and> socket' sub = Some m
                  \<longrightarrow> sessionId' sub = sessionId (sockets w m))
        \<longrightarrow> sent (sockets (snd (sendToSubscriptions (Conn n) args w)) n) = sent (sockets w n))"
proof -
  have a: "sendToSubscriptions socket args w =
     sendToSubscriptions_loop socket (fst args)
       (foreign_subscriptions (sessionId_of w socket) (subscribes w)) (snd args) w"
    unfolding sendToSubscriptions_def by (rule loop_foreign)
  have b: "(\<forall>sub. Some sub \<in> set (subscribes w) \<longrightarrow> sessionId' sub = sessionId_of w socket)
        \<longrightarrow> sendToSubscriptions socket args w = (snd args, w)"
    unfolding sendToSubscriptions_def by (rule impI, rule loop_all_own)
  have c: "(\<forall>sub m. Some sub \<in> set (subscribes w) \<and> socket' sub = Some m
                  \<longrightarrow> sessionId' sub = sessionId (sockets w m))
        \<longrightarrow> sent (sockets (snd (sendToSubscriptions (Conn n) args w)) n) = sent (sockets w n)"
    unfolding sendToSubscriptions_def by (rule impI, rule loop_own_outbox)
  show ?thesis
    by (intro conjI a b c)
qed

theorem sender_is_excluded_witness:
  "checkSubMatchDest (subscription example_world 0 (js ''s1'') (js ''/topic/foo.*''))
     (js ''/topic/foo.bar'', send_frame)
   \<and> sessionId' (subscription example_world 0 (js ''s1'') (js ''/topic/foo.*''))
       = sessionId_of publish_world (Conn 0)
   \<and> sendToSubscriptions (Conn 0) (js ''/topic/foo.bar'', send_frame) publish_world
       = (send_frame, publish_world)
   \<and> sent (sockets (snd (sendToSubscriptions (Conn 0) (js ''/topic/foo.bar'', send_frame)
                            publish_world)) 0) = []"
proof -
  let ?sub = "subscription example_world 0 (js ''s1'') (js ''/topic/foo.*'')"
  have m: "checkSubMatchDest ?sub (js ''/topic/foo.bar'', send_frame)"
    by (simp add: checkSubMatchDest_def subscription_def tokenizeDestination_def split_def js_chars)
  have subs: "subscribes publish_world = [Some ?sub]"
    by (simp add: publish_world_def)
  have own: "sessionId' ?sub = sessionId_of publish_world (Conn 0)"
    by (simp add: subscription_def sessionId_of_def publish_world_def example_world_def)
  have h1: "\<forall>sub. Some sub \<in> set (subscribes publish_world)
              \<longrightarrow> sessionId' sub = sessionId_of publish_world (Conn 0)"
    unfolding subs using own by auto
  have h2: "\<forall>sub m. Some sub \<in> set (subscribes publish_world) \<and> socket' sub = Some m
              \<longrightarrow> sessionId' sub = sessionId (sockets publish_world m)"
    unfolding subs by (simp add: subscription_def publish_world_def)
  have e: "sent (sockets publish_world 0) = []"
    by (simp add: publish_world_def example_world_def new_socket_def)
  from sender_is_excluded [of "Conn 0" "(js ''/topic/foo.bar'', send_frame)" publish_world 0] h1 h2
  have "sendToSubscriptions (Conn 0) (js ''/topic/foo.bar'', send_frame) publish_world
          = (send_frame, publish_world)"
    and "sent (sockets (snd (sendToSubscriptions (Conn 0) (js ''/topic/foo.bar'', send_frame)
                            publish_world)) 0) = sent (sockets publish_world 0)"
    by (metis snd_conv)+
  with m own e show ?thesis by simp
qed

text \<open>
  C3, on the code. Connection \<open>0\<close> is subscribed to \<open>/topic/foo.*\<close> as \<open>s1\<close> and
  connection \<open>1\<close> sends \<open>hello\<close> to \<open>/topic/foo.bar\<close>. The send succeeds and
  connection \<open>0\<close> receives exactly one frame: a MESSAGE with the destination, a
  \<open>content-length\<close> of 5 and \<open>subscription:s1\<close>. Whatever \<open>genId\<close> draws, the frame
  has no \<open>message-id\<close> header: the object that received the generated id is never used.
\<close>

theorem send_omits_message_id:
  "fst (onSend stringify r same_name Map.empty (Conn 1) (js ''/topic/foo.bar'', send_frame)
          publish_world) = Inr (VBool True)
   \<and> sent (sockets (snd (onSend stringify r same_name Map.empty (Conn 1)
                            (js ''/topic/foo.bar'', send_frame) publish_world)) 0)
       = [js ''MESSAGE\<newline>destination:/topic/foo.bar\<newline>content-length:5\<newline>subscription:s1\<newline>\<newline>hello''
          @ [NUL]]
   \<and> map fst (headers (the (parseFrame (Some
         (js ''MESSAGE\<newline>destination:/topic/foo.bar\<newline>content-length:5\<newline>subscription:s1\<newline>\<newline>hello''
          @ [NUL])))))
       = [js ''destination'', js ''content-length'', js ''subscription'', js ''bytes_message'']
   \<and> utf8_length (js ''hello'') = 5"
proof -
  have a: "fst (onSend stringify r same_name Map.empty (Conn 1) (js ''/topic/foo.bar'', send_frame)
          publish_world) = Inr (VBool True)"
    by (simp add: publish_defs send_frame_def js_def Let_def case_prod_beta)
  have b: "sent (sockets (snd (onSend stringify r same_name Map.empty (Conn 1)
                            (js ''/topic/foo.bar'', send_frame) publish_world)) 0)
       = [js ''MESSAGE\<newline>destination:/topic/foo.bar\<newline>content-length:5\<newline>subscription:s1\<newline>\<newline>hello''
          @ [NUL]]"
    by (simp add: publish_defs send_frame_def publish_world_def example_defs
        tokenizeDestination_def split_def toStringOrBuffer_def for_in_def array_index_def
        is_digit_def number_to_string_def digits.simps js_chars Let_def)
  have c: "map fst (headers (the (parseFrame (Some
         (js ''MESSAGE\<newline>destination:/topic/foo.bar\<newline>content-length:5\<newline>subscription:s1\<newline>\<newline>hello''
          @ [NUL])))))
       = [js ''destination'', js ''content-length'', js ''subscription'', js ''bytes_message'']"
    by (simp add: parse_defs js_chars Let_def)
  have d: "utf8_length (js ''hello'') = 5"
    by (simp add: js_def)
  show ?thesis
    by (intro conjI a b c d)
qed

subsection \<open>Frame codec\<close>

lemma split_from_char_none:
  "c \<notin> set s \<Longrightarrow> split_from [c] acc s = [rev acc @ s]"
  by (induction s arbitrary: acc) auto

lemma split_from_char_first:
  "c \<notin> set x \<Longrightarrow> split_from [c] acc (x @ c # rest) = (rev acc @ x) # split_from [c] [] rest"
  by (induction x arbitrary: acc) auto

lemma split_char_join:
  "xs \<noteq> [] \<Longrightarrow> \<forall>x \<in> set xs. c \<notin> set x \<Longrightarrow> split_from [c] [] (join [c] xs) = xs"
proof (induction "[c]" xs rule: join.induct)
  case 1
  then show ?case by simp
next
  case (2 x)
  then show ?case by (simp add: split_from_char_none)
next
  case (3 x y ys)
  then show ?case using split_from_char_first [of c x "[]" "join [c] (y # ys)"] by simp
qed

lemma split_from_not_Nil [simp]: "split_from sep acc s \<noteq> []"
  by (induction sep acc s rule: split_from.induct) auto

lemma join_split_from_char:
  "join [c] (split_from [c] acc s) = rev acc @ s"
proof (induction s arbitrary: acc)
  case Nil
  show ?case by simp
next
  case (Cons d s)
  show ?case
  proof (cases "c = d")
    case True
    obtain p ps where ps: "split_from [c] [] s = p # ps" by (cases "split_from [c] [] s") auto
    from Cons [of "[]"] ps have "join [c] (p # ps) = s" by simp
    with True ps show ?thesis by simp
  next
    case False
    with Cons [of "d # acc"] show ?thesis by simp
  qed
qed

lemma split_blank_within_line:
  "LF \<notin> set x \<Longrightarrow>
   split_from [LF, LF] acc (x @ LF # LF # b) = (rev acc @ x) # split_from [LF, LF] [] b"
  by (induction x arbitrary: acc) auto

lemma split_blank_next_line:
  "LF \<notin> set x \<Longrightarrow> d \<noteq> LF \<Longrightarrow>
   split_from [LF, LF] acc (x @ LF # d # rest) = split_from [LF, LF] (LF # rev x @ acc) (d # rest)"
  by (induction x arbitrary: acc) auto

lemma split_blank_lines:
  "\<forall>l \<in> set ls. l \<noteq> [] \<and> LF \<notin> set l \<Longrightarrow>
   split_from [LF, LF] acc (join [LF] ls @ LF # LF # b)
     = (rev acc @ join [LF] ls) # split_from [LF, LF] [] b"
proof (induction "[LF]" ls arbitrary: acc rule: join.induct)
  case 1
  show ?case by simp
next
  case (2 x)
  then show ?case by (simp add: split_blank_within_line)
next
  case (3 x y ys)
  from "3.prems" obtain d y' where y: "y = d # y'" and d: "d \<noteq> LF"
    by (cases y) auto
  obtain rest where rest: "join [LF] (y # ys) @ LF # LF # b = d # rest"
    using y by (cases ys) auto
  from "3.prems" have x: "LF \<notin> set x" by simp
  have "split_from [LF, LF] acc (join [LF] (x # y # ys) @ LF # LF # b)
          = split_from [LF, LF] acc (x @ LF # d # rest)"
    using rest by simp
  also have "\<dots> = split_from [LF, LF] (LF # rev x @ acc) (d # rest)"
    by (rule split_blank_next_line [OF x d])
  also have "\<dots> = split_from [LF, LF] (LF # rev x @ acc) (join [LF] (y # ys) @ LF # LF # b)"
    using rest by simp
  also have "\<dots> = (rev (LF # rev x @ acc) @ join [LF] (y # ys)) # split_from [LF, LF] [] b"
    using "3.prems" by (intro "3.hyps") simp
  finally show ?case by simp
qed

lemma split_blank_none:
  "blank_line_free s \<Longrightarrow> split_from [LF, LF] acc s = [rev acc @ s]"
  by (induction s arbitrary: acc rule: blank_line_free.induct) auto

lemma blank_line_free_NUL:
  "blank_line_free s \<Longrightarrow> blank_line_free (s @ [NUL])"
  by (induction s rule: blank_line_free.induct) (auto simp: LF_def NUL_def)


lemma hput_fresh: "k \<notin> fst ` set hs \<Longrightarrow> hput hs k v = hs @ [(k, v)]"
  by (induction hs) auto

lemma COLON_not_LF: "COLON \<noteq> LF"
  by (simp add: COLON_def LF_def)

lemma header_line_plain:
  assumes "plain_header (k, v)"
  shows "header_line (k, v) \<noteq> []" and "LF \<notin> set (header_line (k, v))"
  using assms COLON_not_LF
  by (auto simp: plain_header_def header_line_def split: jsvalue.splits)

lemma parseHeaders_line_plain:
  assumes "plain_header (k, v)"
  shows "parseHeaders_line hs (header_line (k, v)) = hput hs k v"
proof -
  from assms obtain s where v: "v = VString s" and s: "trim s = s"
    and k: "COLON \<notin> set k" "trim k = k" "k \<noteq> js ''__proto__''"
    by (auto simp: plain_header_def split: jsvalue.splits)
  have sp: "split [COLON] (header_line (k, v)) = k # split_from [COLON] [] s"
    using k(1) by (simp add: split_def header_line_def v split_from_char_first)
  have jn: "join [COLON] (split_from [COLON] [] s) = s"
    using join_split_from_char [of COLON "[]" s] by simp
  have len: "length (split_from [COLON] [] s) > 0"
    by simp
  show ?thesis
    unfolding parseHeaders_line_def sp Let_def
    using len by (simp add: jn k s v hset_def)
qed

lemma foldl_parseHeaders_line:
  "\<forall>h \<in> set ps. plain_header h \<Longrightarrow> distinct (map fst (hs @ ps)) \<Longrightarrow>
   foldl parseHeaders_line hs (map header_line ps) = hs @ ps"
proof (induction ps arbitrary: hs)
  case Nil
  show ?case by simp
next
  case (Cons p ps)
  obtain k v where p: "p = (k, v)" by (cases p)
  from Cons.prems have plain: "plain_header (k, v)" by (simp add: p)
  from Cons.prems(2) have fresh: "k \<notin> fst ` set hs" by (auto simp: p)
  have step: "parseHeaders_line hs (header_line p) = hs @ [p]"
    using parseHeaders_line_plain [OF plain] hput_fresh [OF fresh] by (simp add: p)
  from Cons.prems have "foldl parseHeaders_line (hs @ [p]) (map header_line ps) = (hs @ [p]) @ ps"
    by (intro Cons.IH) auto
  with step show ?case by simp
qed

lemma parseHeaders_plain:
  assumes "\<forall>h \<in> set ps. plain_header h" and "distinct (map fst ps)"
  shows "parseHeaders (join [LF] (map header_line ps)) = ps"
proof (cases ps)
  case Nil
  then show ?thesis
    by (simp add: parseHeaders_def parseHeaders_line_def split_def)
next
  case (Cons p ps')
  have lines: "\<forall>l \<in> set (map header_line ps). LF \<notin> set l"
    using assms(1) header_line_plain(2) by auto
  have "split [LF] (join [LF] (map header_line ps)) = map header_line ps"
    unfolding split_def using lines Cons by (simp add: split_char_join del: join.simps)
  then show ?thesis
    unfolding parseHeaders_def using foldl_parseHeaders_line [of ps "[]"] assms by simp
qed

lemma set_for_in: "set (for_in hs) = set hs"
  by (auto simp: for_in_def)

lemma distinct_for_in:
  assumes "distinct (map fst hs)"
  shows "distinct (map fst (for_in hs))"
proof -
  from assms have d: "distinct hs" and i: "inj_on fst (set hs)"
    by (simp_all add: distinct_map)
  have "distinct (for_in hs)"
    using d by (auto simp: for_in_def)
  moreover have "inj_on fst (set (for_in hs))"
    using i by (simp add: set_for_in)
  ultimately show ?thesis
    by (simp add: distinct_map)
qed

lemma indexOf_append_first:
  "c \<notin> set s \<Longrightarrow> indexOf (s @ c # rest) c = Some (length s)"
  by (induction s) auto

lemma trimNull_terminated: "NUL \<notin> set b \<Longrightarrow> trimNull (b @ [NUL]) = b"
  by (simp add: trimNull_def indexOf_append_first)

lemma toStringOrBuffer_text:
  assumes "command f = Some c" and "body f = VString b"
  shows "toStringOrBuffer f =
           c @ LF # (join [LF] (map header_line (for_in (headers f))) @ LF # LF # (b @ [NUL]))"
proof -
  have "(\<lambda>(header, v). header @ [COLON] @ to_string v) = header_line"
    by (auto simp: header_line_def fun_eq_iff)
  then show ?thesis
    using assms by (simp add: toStringOrBuffer_def Let_def)
qed

text \<open>
  C2, as stated, fails. A frame with a \<open>content-length\<close> header comes back with the
  additional header \<open>bytes_message\<close>, and a header value that begins with a space comes
  back without it; in both frames no key contains a line feed or a colon and the body is
  text.
\<close>

theorem frame_round_trip_counterexample:
  "parseFrame (Some (toStringOrBuffer
       \<lparr>command = Some (js ''MESSAGE''),
        headers = [(js ''content-length'', VString (js ''5''))],
        body = VString (js ''hello'')\<rparr>))
     = Some \<lparr>command = Some (js ''MESSAGE''),
             headers = [(js ''content-length'', VString (js ''5'')),
                        (js ''bytes_message'', VBool True)],
             body = VString (js ''hello'')\<rparr>
   \<and> parseFrame (Some (toStringOrBuffer
       \<lparr>command = Some (js ''SEND''),
        headers = [(js ''receipt'', VString (js '' r1''))],
        body = VString (js ''hello'')\<rparr>))
     = Some \<lparr>command = Some (js ''SEND''),
             headers = [(js ''receipt'', VString (js ''r1''))],
             body = VString (js ''hello'')\<rparr>"
  by (simp add: toStringOrBuffer_def for_in_def array_index_def is_digit_def parse_defs
      js_chars Let_def)

text \<open>
  C2, amended. For a frame with a command that has no line feed, a textual body without
  a NUL and without a blank line, and headers with distinct keys that are all plain (key
  without line feed or colon, unchanged by \<open>trim\<close>, neither \<open>content-length\<close> nor
  \<open>__proto__\<close>; value a string without line feed, unchanged by \<open>trim\<close>), parsing the
  serialized frame gives the same command, the same headers and the same body.
\<close>

theorem frame_round_trip:
  assumes "command f = Some c" and "LF \<notin> set c"
    and "body f = VString b" and "NUL \<notin> set b" and "blank_line_free b"
    and "distinct (map fst (headers f))" and "\<forall>h \<in> set (headers f). plain_header h"
  shows "parseFrame (Some (toStringOrBuffer f)) =
           Some \<lparr>command = command f, headers = for_in (headers f), body = body f\<rparr>
         \<and> set (for_in (headers f)) = set (headers f)"
proof -
  let ?ps = "for_in (headers f)"
  let ?H = "join [LF] (map header_line ?ps)"
  let ?wire = "c @ LF # (?H @ LF # LF # (b @ [NUL]))"
  have wire: "toStringOrBuffer f = ?wire"
    by (rule toStringOrBuffer_text [OF assms(1,3)])
  have plain: "\<forall>h \<in> set ?ps. plain_header h"
    using assms(7) by (simp add: set_for_in)
  have dist: "distinct (map fst ?ps)"
    by (rule distinct_for_in [OF assms(6)])
  have cmd: "parseCommand ?wire = c"
    using assms(2) by (simp add: parseCommand_def split_def split_from_char_first)
  have data: "drop (length c + 1) ?wire = ?H @ LF # LF # (b @ [NUL])"
    by simp
  have lines: "\<forall>l \<in> set (map header_line ?ps). l \<noteq> [] \<and> LF \<notin> set l"
    using plain header_line_plain by auto
  have rest: "split [LF, LF] (?H @ LF # LF # (b @ [NUL])) = [?H, b @ [NUL]]"
    unfolding split_def
    using split_blank_lines [OF lines, of "[]" "b @ [NUL]"]
      split_blank_none [OF blank_line_free_NUL [OF assms(5)], of "[]"]
    by simp
  have hdrs: "parseHeaders ?H = ?ps"
    by (rule parseHeaders_plain [OF plain dist])
  have nocl: "\<not> hhas ?ps (js ''content-length'')"
    using plain by (force simp: hhas_def map_of_eq_None_iff plain_header_def)
  have bdy: "trimNull (join [COMMA] [b @ [NUL]]) = b"
    using assms(4) by (simp add: trimNull_terminated)
  have "parseFrame (Some ?wire) = Some \<lparr>command = Some c, headers = ?ps, body = VString b\<rparr>"
    unfolding parseFrame_def option.case Let_def cmd data rest
    by (simp add: hdrs nocl bdy del: join.simps)
  with wire assms(1,3) show ?thesis
    by (simp add: set_for_in)
qed

theorem frame_round_trip_witness:
  "toStringOrBuffer text_frame
     = js ''SEND\<newline>destination:/topic/foo.bar\<newline>receipt:r:1\<newline>\<newline>hello\<newline>world'' @ [NUL]
   \<and> parseFrame (Some (toStringOrBuffer text_frame)) = Some text_frame"
proof -
  have c: "command text_frame = Some (js ''SEND'')" and lf: "LF \<notin> set (js ''SEND'')"
    by (simp_all add: text_frame_def js_chars)
  have b: "body text_frame = VString (js ''hello\<newline>world'')"
    and nul: "NUL \<notin> set (js ''hello\<newline>world'')"
    and blank: "blank_line_free (js ''hello\<newline>world'')"
    by (simp_all add: text_frame_def js_chars)
  have d: "distinct (map fst (headers text_frame))"
    by (simp add: text_frame_def js_def)
  have p: "\<forall>h \<in> set (headers text_frame). plain_header h"
    by (simp add: text_frame_def plain_header_def trim_def is_space_def js_chars)
  have o: "for_in (headers text_frame) = headers text_frame"
    by (simp add: text_frame_def for_in_def array_index_def is_digit_def js_def)
  have w: "toStringOrBuffer text_frame
     = js ''SEND\<newline>destination:/topic/foo.bar\<newline>receipt:r:1\<newline>\<newline>hello\<newline>world'' @ [NUL]"
    unfolding toStringOrBuffer_def o by (simp add: text_frame_def js_chars)
  from frame_round_trip [OF c lf b nul blank d p] have
    "parseFrame (Some (toStringOrBuffer text_frame))
       = Some \<lparr>command = command text_frame, headers = for_in (headers text_frame),
               body = body text_frame\<rparr>"
    by (rule conjunct1)
  then have "parseFrame (Some (toStringOrBuffer text_frame)) = Some text_frame"
    by (simp add: o)
  with w show ?thesis by simp
qed

end
